theory Spec2Isabelle
  imports
    Main
    "HOL-Library.AList"
    "HOL-Library.Char_ord"
    "HOL-Library.List_Lexorder"
    "HOL-Library.Monad_Syntax"
    "HOL-Library.Sublist"
begin

section \<open>Data model (app/models.py)\<close>

text \<open>
  A \<open>datetime\<close> is a clock reading; only equality and order of readings matter here, so it
  is an integer (microseconds, say).  Python's \<open>Optional[T]\<close> is \<open>T option\<close>, a \<open>List\<close> is a
  list, and a \<open>Dict\<close> is an association list in insertion order.  Field names carry a prefix
  per class (\<open>cf_\<close>, \<open>repo_\<close>, \<open>gc_\<close>, \<open>ctx_\<close>, \<open>ccr_\<close>, \<open>ucr_\<close>, \<open>ccf_\<close>, \<open>ucf_\<close>, \<open>su_\<close>,
  \<open>tr_\<close>), since the classes share field names such as \<open>name\<close> and \<open>created_at\<close>; a
  method whose name starts with an underscore is written without it.
\<close>

type_synonym datetime = int

datatype ContextFileType = STACK | BUSINESS | PEOPLE | GUIDELINES | CUSTOM

record ContextFile =
  cf_name :: string
  cf_file_type :: ContextFileType
  cf_content :: string
  cf_created_at :: datetime
  cf_updated_at :: datetime

record GitHubRepo =
  repo_owner :: string
  repo_name :: string
  repo_full_name :: string
  repo_description :: "string option"
  repo_url :: string
  repo_clone_url :: string
  repo_default_branch :: string
  repo_language :: "string option"
  repo_languages :: "(string \<times> int) list option"

record GitHubContributor =
  gc_login :: string
  gc_id :: int
  gc_avatar_url :: string
  gc_name :: "string option"
  gc_email :: "string option"
  gc_bio :: "string option"
  gc_pronouns :: "string option"
  gc_company :: "string option"
  gc_website :: "string option"
  gc_location :: "string option"
  gc_twitter_username :: "string option"
  gc_public_repos :: "int option"
  gc_followers :: "int option"
  gc_following :: "int option"
  gc_created_at :: "string option"
  gc_hireable :: "bool option"
  gc_contributions :: int
  gc_selected :: bool

record Context =
  ctx_id :: string
  ctx_name :: string
  ctx_description :: "string option"
  ctx_owner_id :: int
  ctx_owner_login :: string
  ctx_github_repo :: "GitHubRepo option"
  ctx_files :: "ContextFile list"
  ctx_contributors :: "GitHubContributor list"
  ctx_is_public :: bool
  ctx_created_at :: datetime
  ctx_updated_at :: datetime

record CreateContextRequest =
  ccr_name :: string
  ccr_description :: "string option"
  ccr_github_repo_url :: "string option"
  ccr_is_public :: bool

text \<open>
  The constructor of \<open>CreateContextRequest\<close> with its declared defaults: an argument that
  the caller leaves out is \<open>None\<close> here, and \<open>is_public\<close> then takes its default \<open>True\<close>.
\<close>

definition new_CreateContextRequest ::
  "string \<Rightarrow> string option \<Rightarrow> string option \<Rightarrow> bool option \<Rightarrow> CreateContextRequest" where
  "new_CreateContextRequest name description github_repo_url is_public =
     \<lparr>ccr_name = name, ccr_description = description,
      ccr_github_repo_url = github_repo_url,
      ccr_is_public = (case is_public of None \<Rightarrow> True | Some b \<Rightarrow> b)\<rparr>"

record UpdateContextRequest =
  ucr_name :: "string option"
  ucr_description :: "string option"
  ucr_is_public :: "bool option"

record UpdateContextFileRequest =
  ucf_content :: string

record CreateContextFileRequest =
  ccf_name :: string
  ccf_file_type :: ContextFileType
  ccf_content :: string

section \<open>Python values\<close>

definition nl :: string where
  "nl = [CHR 0x0A]"

text \<open>Truth value of an \<open>Optional[str]\<close>: \<open>None\<close> and the empty string are false.\<close>

definition truthy :: "string option \<Rightarrow> bool" where
  "truthy v = (case v of None \<Rightarrow> False | Some s \<Rightarrow> s \<noteq> [])"

text \<open>\<open>a or b\<close> for an optional string \<open>a\<close> and a string \<open>b\<close>.\<close>

definition py_or :: "string option \<Rightarrow> string \<Rightarrow> string" where
  "py_or a b = (case a of None \<Rightarrow> b | Some s \<Rightarrow> if s = [] then b else s)"

text \<open>
  The statement \<open>if field: content += line(field)\<close>, which the generators repeat for each
  optional text field.
\<close>

definition when_set :: "string option \<Rightarrow> (string \<Rightarrow> string) \<Rightarrow> string \<Rightarrow> string" where
  "when_set field line content =
     (case field of None \<Rightarrow> content
      | Some v \<Rightarrow> if v = [] then content else content @ line v)"

text \<open>
  The keys of a dict, each once.  (In an association list that repeats a key the later
  pairs stand for overwrites; \<open>sorted\<close> makes the position of a key irrelevant.)
\<close>

definition dict_keys :: "('k \<times> 'v) list \<Rightarrow> 'k list" where
  "dict_keys d = remdups (map fst d)"

section \<open>Default document generator (ContextService, app/services.py)\<close>

text \<open>
  \<open>_generate_stack_content\<close>.  The \<open>github_service\<close> argument is not used by the source
  function and is left out.  \<open>sorted\<close> on \<open>str\<close> compares code points lexicographically, which
  is the order of \<open>string\<close> here.
\<close>

definition generate_stack_content :: "Context \<Rightarrow> string" where
  "generate_stack_content context =
     (let content = ''# Technology Stack'' @ nl @ nl;
          content =
            (case ctx_github_repo context of
               None \<Rightarrow> content
             | Some repo \<Rightarrow>
                 (case repo_languages repo of
                    None \<Rightarrow> content
                  | Some languages \<Rightarrow>
                      if languages = [] then content
                      else foldl (\<lambda>content lang. content @ ''- **'' @ lang @ ''**'' @ nl)
                             (content @ ''## Languages'' @ nl)
                             (sort (dict_keys languages)) @ nl));
          content = content @ ''## Frameworks & Libraries'' @ nl;
          content = content @ ''_Add frameworks and libraries used in this project_'' @ nl @ nl;
          content = content @ ''## Tools & Services'' @ nl;
          content = content @ ''_Add development tools, CI/CD, and services used_'' @ nl @ nl;
          content = content @ ''## Architecture'' @ nl;
          content = content @ ''_Describe the high-level architecture of the project_'' @ nl
      in content)"

text \<open>\<open>_generate_business_content\<close>.\<close>

definition generate_business_content :: "Context \<Rightarrow> string" where
  "generate_business_content context =
     (let content = ''# Business Logic'' @ nl @ nl;
          content =
            (case ctx_github_repo context of
               None \<Rightarrow> content
             | Some repo \<Rightarrow>
                 when_set (repo_description repo)
                   (\<lambda>d. ''## Project Description'' @ nl @ d @ nl @ nl) content);
          content = content @ ''## Core Features'' @ nl;
          content = content @ ''_List the main features and functionality_'' @ nl @ nl;
          content = content @ ''## Business Rules'' @ nl;
          content = content @ ''_Document important business rules and constraints_'' @ nl @ nl;
          content = content @ ''## User Stories'' @ nl;
          content = content @ ''_Add key user stories and use cases_'' @ nl
      in content)"

text \<open>
  \<open>_generate_people_content\<close>: \<open>website_target\<close> is the cleaned-up link target, and
  \<open>people_step\<close> is the body of the loop over the contributors.
\<close>

definition website_target :: "string \<Rightarrow> string" where
  "website_target website =
     (if \<not> (prefix ''http://'' website \<or> prefix ''https://'' website)
      then ''https://'' @ website else website)"

definition people_step :: "string \<Rightarrow> GitHubContributor \<Rightarrow> string" where
  "people_step content contrib =
     (if gc_selected contrib then
        (let content = content @ ''### '' @ py_or (gc_name contrib) (gc_login contrib) @ nl;
             content = content @ ''- **GitHub**: [@'' @ gc_login contrib
                         @ ''](https://github.com/'' @ gc_login contrib @ '')'' @ nl;
             content = when_set (gc_pronouns contrib)
                         (\<lambda>v. ''- **Pronouns**: '' @ v @ nl) content;
             content = when_set (gc_bio contrib)
                         (\<lambda>v. ''- **Bio**: '' @ v @ nl) content;
             content = when_set (gc_company contrib)
                         (\<lambda>v. ''- **Company**: '' @ v @ nl) content;
             content = when_set (gc_location contrib)
                         (\<lambda>v. ''- **Location**: '' @ v @ nl) content;
             content = when_set (gc_website contrib)
                         (\<lambda>v. ''- **Website**: ['' @ v @ ''](''
                                @ website_target v @ '')'' @ nl) content;
             content = when_set (gc_email contrib)
                         (\<lambda>v. ''- **Email**: '' @ v @ nl) content;
             content = when_set (gc_twitter_username contrib)
                         (\<lambda>v. ''- **Twitter**: [@'' @ v @ ''](https://twitter.com/''
                                @ v @ '')'' @ nl) content;
             content = (if gc_hireable contrib = Some True
                        then content @ ''- **Available for hire**: Yes'' @ nl
                        else content)
         in content @ nl)
      else content)"

definition generate_people_content :: "Context \<Rightarrow> string" where
  "generate_people_content context =
     (let content = ''# People'' @ nl @ nl;
          content =
            (if ctx_contributors context \<noteq> []
             then foldl people_step (content @ ''## Contributors'' @ nl)
                    (ctx_contributors context)
             else content);
          content = content @ ''## Team Roles'' @ nl;
          content = content @ ''_Define roles and responsibilities_'' @ nl @ nl;
          content = content @ ''## Contact Information'' @ nl;
          content = content @ ''_Add relevant contact information_'' @ nl
      in content)"

text \<open>
  \<open>_generate_guidelines_content\<close>; the argument \<open>github_service\<close> is only tested for
  presence, which is the boolean here.
\<close>

definition generate_guidelines_content :: "Context \<Rightarrow> bool \<Rightarrow> string" where
  "generate_guidelines_content context github_service =
     (let content = ''# Development Guidelines'' @ nl @ nl;
          contributing_content =
            (if ctx_github_repo context \<noteq> None \<and> github_service
             then Some ''# See CONTRIBUTING.md in the repository'' else None)
      in if truthy contributing_content then
           (let content = content @ ''## Contributing Guidelines'' @ nl
            in content @ py_or contributing_content [] @ nl @ nl)
         else
           (let content = content @ ''## Code Style'' @ nl;
                content = content @ ''_Define coding standards and style guidelines_'' @ nl @ nl;
                content = content @ ''## Development Workflow'' @ nl;
                content = content @ ''_Describe the development process and workflow_'' @ nl @ nl;
                content = content @ ''## Testing Guidelines'' @ nl;
                content = content @ ''_Document testing requirements and practices_'' @ nl @ nl;
                content = content @ ''## Review Process'' @ nl
            in content @ ''_Define the code review process_'' @ nl))"

section \<open>The world the services run in\<close>

text \<open>
  What the code reads and writes outside its arguments, as explicit state:
  \<^item> \<open>contexts\<close>: the dict \<open>ContextService.contexts\<close>, in insertion order;
  \<^item> \<open>disk\<close>: the files under the directory \<open>contexts\<close>, a map from a path (its components)
    to what was last written there (see \<open>save_context\<close> for the file names this covers);
  \<^item> \<open>clock\<close>, \<open>clock_reads\<close>: \<open>datetime.now()\<close> returns \<open>clock\<close> at the number of readings
    made so far; each call is one reading;
  \<^item> \<open>uuid_gen\<close>, \<open>uuid_draws\<close>: \<open>str(uuid.uuid4())\<close>, in the same way;
  \<^item> \<open>github\<close>, \<open>sent\<close>: the repository host.  \<open>sent\<close> is the list of HTTP requests made so
    far, and \<open>github\<close> gives the outcome of a request from the requests made before it.
  The text of \<open>metadata.json\<close> is \<open>context.model_dump_json(indent=2)\<close>, which is determined
  by the context; the artifact \<open>Metadata\<close> holds that context.
\<close>

datatype artifact = Metadata Context | Document string

type_synonym path = "string list"

text \<open>A decoded JSON value; a JSON object is a dict.\<close>

datatype json =
    JNull
  | JBool bool
  | JNum int
  | JStr string
  | JArr "json list"
  | JObj "(string \<times> json) list"

text \<open>
  A request carries the access token of its \<open>Authorization\<close> header, the URL and, for
  \<open>post\<close> and \<open>put\<close>, the JSON payload.  An outcome is a transport exception or a response:
  its status code and what \<open>.json()\<close> returns (\<open>None\<close> when the body does not decode).
\<close>

datatype http_request =
    HttpGet string string
  | HttpPost string string json
  | HttpPut string string json

datatype http_reply = Unreachable string | Reply nat "json option"

record world =
  contexts :: "(string \<times> Context) list"
  disk :: "path \<Rightarrow> artifact option"
  clock :: "nat \<Rightarrow> datetime"
  clock_reads :: nat
  uuid_gen :: "nat \<Rightarrow> string"
  uuid_draws :: nat
  github :: "http_request list \<Rightarrow> http_request \<Rightarrow> http_reply"
  sent :: "http_request list"

definition now :: "world \<Rightarrow> datetime \<times> world" where
  "now w = (clock w (clock_reads w), w\<lparr>clock_reads := Suc (clock_reads w)\<rparr>)"

definition uuid4 :: "world \<Rightarrow> string \<times> world" where
  "uuid4 w = (uuid_gen w (uuid_draws w), w\<lparr>uuid_draws := Suc (uuid_draws w)\<rparr>)"

datatype exn =
    ValueError string
  | HTTPException nat string
  | Exception string
  | KeyError string
  | TypeError string
  | AttributeError string
  | TransportError string

section \<open>Context store (ContextService, app/services.py)\<close>



text \<open>
  \<open>_save_context\<close>: writes \<open>metadata.json\<close> and then one file per entry of
  \<open>context.files\<close>, in order.  Nothing is deleted: the artifact of a file that has left
  the context stays on disk.  This is the save of a context whose file names are plain, on
  a working file system: then every write succeeds and lands in the file of that name in
  \<open>files_dir\<close>.  What the source does with other names is not modelled.  Therefore every
  statement below about what an operation returns after saving files, or about what is on
  disk afterwards, has \<open>plain_names\<close> of the saved files as a hypothesis; the statements
  about the contexts in memory do not depend on the save, because the source changes the
  context before it saves.
\<close>

definition save_context :: "world \<Rightarrow> Context \<Rightarrow> world" where
  "save_context w context =
     (let context_dir = [''contexts'', ctx_id context];
          d = (disk w)(context_dir @ [''metadata.json''] \<mapsto> Metadata context);
          files_dir = context_dir @ [''files''];
          d = foldl (\<lambda>d file_obj.
                 d(files_dir @ [cf_name file_obj] \<mapsto> Document (cf_content file_obj)))
               d (ctx_files context)
      in w\<lparr>disk := d\<rparr>)"

text \<open>\<open>_delete_context_files\<close>: \<open>shutil.rmtree\<close> of the context's directory.\<close>

definition delete_context_files :: "world \<Rightarrow> string \<Rightarrow> world" where
  "delete_context_files w context_id =
     w\<lparr>disk := (\<lambda>p. if prefix [''contexts'', context_id] p then None else disk w p)\<rparr>"

definition get_context :: "world \<Rightarrow> string \<Rightarrow> Context option" where
  "get_context w context_id = map_of (contexts w) context_id"

definition get_user_contexts :: "world \<Rightarrow> int \<Rightarrow> Context list" where
  "get_user_contexts w user_id =
     filter (\<lambda>ctx. ctx_owner_id ctx = user_id) (map snd (contexts w))"

definition get_public_contexts :: "world \<Rightarrow> Context list" where
  "get_public_contexts w = filter ctx_is_public (map snd (contexts w))"

text \<open>
  \<open>get_context_by_repo_url\<close>: the first context, in the dict's order, of that owner whose
  linked repository has that URL.
\<close>

definition linked_to :: "int \<Rightarrow> string \<Rightarrow> Context \<Rightarrow> bool" where
  "linked_to user_id url context =
     (ctx_owner_id context = user_id \<and>
      (case ctx_github_repo context of None \<Rightarrow> False | Some repo \<Rightarrow> repo_url repo = url))"

definition get_context_by_repo_url :: "world \<Rightarrow> int \<Rightarrow> string \<Rightarrow> Context option" where
  "get_context_by_repo_url w user_id url =
     find (linked_to user_id url) (map snd (contexts w))"

text \<open>
  \<open>create_context\<close>.  The duplicate check runs only for a truthy \<open>github_repo_url\<close>.
  \<open>Context(...)\<close> fills \<open>created_at\<close> and \<open>updated_at\<close> from their own
  \<open>default_factory\<close>, one call of \<open>datetime.now\<close> each, in field order.
\<close>

definition create_context ::
  "world \<Rightarrow> int \<Rightarrow> string \<Rightarrow> CreateContextRequest \<Rightarrow> exn + (Context \<times> world)" where
  "create_context w user_id user_login request =
     (if truthy (ccr_github_repo_url request) \<and>
         get_context_by_repo_url w user_id (py_or (ccr_github_repo_url request) []) \<noteq> None
      then Inl (ValueError (''Context already exists for repository: '' @ ccr_name request))
      else
        (let (context_id, w) = uuid4 w;
             (created_at, w) = now w;
             (updated_at, w) = now w;
             context = \<lparr>ctx_id = context_id, ctx_name = ccr_name request,
                        ctx_description = ccr_description request,
                        ctx_owner_id = user_id, ctx_owner_login = user_login,
                        ctx_github_repo = None, ctx_files = [], ctx_contributors = [],
                        ctx_is_public = ccr_is_public request,
                        ctx_created_at = created_at, ctx_updated_at = updated_at\<rparr>;
             w = w\<lparr>contexts := AList.update context_id context (contexts w)\<rparr>
         in Inr (context, save_context w context)))"

text \<open>
  The methods below fetch the context object from the dict, change it in place and save
  it; the dict then holds the changed object under the same key, which is the
  \<open>AList.update\<close> in \<open>store\<close>.
\<close>

definition store :: "world \<Rightarrow> string \<Rightarrow> Context \<Rightarrow> world" where
  "store w context_id context =
     save_context (w\<lparr>contexts := AList.update context_id context (contexts w)\<rparr>) context"

definition update_context ::
  "world \<Rightarrow> string \<Rightarrow> UpdateContextRequest \<Rightarrow> Context option \<times> world" where
  "update_context w context_id request =
     (case map_of (contexts w) context_id of
        None \<Rightarrow> (None, w)
      | Some context \<Rightarrow>
          (let context = (case ucr_name request of
                            None \<Rightarrow> context | Some n \<Rightarrow> context\<lparr>ctx_name := n\<rparr>);
               context = (case ucr_description request of
                            None \<Rightarrow> context | Some d \<Rightarrow> context\<lparr>ctx_description := Some d\<rparr>);
               context = (case ucr_is_public request of
                            None \<Rightarrow> context | Some b \<Rightarrow> context\<lparr>ctx_is_public := b\<rparr>);
               (t, w) = now w;
               context = context\<lparr>ctx_updated_at := t\<rparr>
           in (Some context, store w context_id context)))"

definition delete_context :: "world \<Rightarrow> string \<Rightarrow> bool \<times> world" where
  "delete_context w context_id =
     (if context_id \<in> fst ` set (contexts w)
      then (True, delete_context_files
                    (w\<lparr>contexts := AList.delete context_id (contexts w)\<rparr>) context_id)
      else (False, w))"

text \<open>
  \<open>add_file_to_context\<close>.  \<open>ContextFile(...)\<close> reads the clock twice, for the file's
  \<open>created_at\<close> and \<open>updated_at\<close>; the context's \<open>updated_at\<close> is a third reading.
\<close>

definition add_file_to_context ::
  "world \<Rightarrow> string \<Rightarrow> CreateContextFileRequest \<Rightarrow> ContextFile option \<times> world" where
  "add_file_to_context w context_id request =
     (case map_of (contexts w) context_id of
        None \<Rightarrow> (None, w)
      | Some context \<Rightarrow>
          (let (created_at, w) = now w;
               (updated_at, w) = now w;
               file_obj = \<lparr>cf_name = ccf_name request, cf_file_type = ccf_file_type request,
                           cf_content = ccf_content request,
                           cf_created_at = created_at, cf_updated_at = updated_at\<rparr>;
               files = filter (\<lambda>f. cf_name f \<noteq> ccf_name request) (ctx_files context);
               files = files @ [file_obj];
               (t, w) = now w;
               context = context\<lparr>ctx_files := files, ctx_updated_at := t\<rparr>
           in (Some file_obj, store w context_id context)))"

text \<open>
  \<open>update_context_file\<close>: the loop stops at the first file of that name.
  \<open>update_first\<close> is that loop up to the file's own update, given the clock reading that
  becomes the file's \<open>updated_at\<close>; it returns the changed file and the changed list.
\<close>

fun update_first ::
  "string \<Rightarrow> string \<Rightarrow> datetime \<Rightarrow> ContextFile list \<Rightarrow> (ContextFile \<times> ContextFile list) option" where
  "update_first file_name content t [] = None"
| "update_first file_name content t (file_obj # rest) =
     (if cf_name file_obj = file_name
      then (let file_obj = file_obj\<lparr>cf_content := content, cf_updated_at := t\<rparr>
            in Some (file_obj, file_obj # rest))
      else (case update_first file_name content t rest of
              None \<Rightarrow> None
            | Some (found, rest) \<Rightarrow> Some (found, file_obj # rest)))"

definition update_context_file ::
  "world \<Rightarrow> string \<Rightarrow> string \<Rightarrow> UpdateContextFileRequest \<Rightarrow> ContextFile option \<times> world" where
  "update_context_file w context_id file_name request =
     (case map_of (contexts w) context_id of
        None \<Rightarrow> (None, w)
      | Some context \<Rightarrow>
          (let (t1, w1) = now w
           in case update_first file_name (ucf_content request) t1 (ctx_files context) of
                None \<Rightarrow> (None, w)
              | Some (file_obj, files) \<Rightarrow>
                  (let (t2, w2) = now w1;
                       context = context\<lparr>ctx_files := files, ctx_updated_at := t2\<rparr>
                   in (Some file_obj, store w2 context_id context))))"

definition remove_file_from_context :: "world \<Rightarrow> string \<Rightarrow> string \<Rightarrow> bool \<times> world" where
  "remove_file_from_context w context_id file_name =
     (case map_of (contexts w) context_id of
        None \<Rightarrow> (False, w)
      | Some context \<Rightarrow>
          (let original_count = length (ctx_files context);
               context = context\<lparr>ctx_files :=
                           filter (\<lambda>f. cf_name f \<noteq> file_name) (ctx_files context)\<rparr>;
               w = w\<lparr>contexts := AList.update context_id context (contexts w)\<rparr>
           in if length (ctx_files context) < original_count then
                (let (t, w) = now w;
                     context = context\<lparr>ctx_updated_at := t\<rparr>
                 in (True, store w context_id context))
              else (False, w)))"

definition set_context_repo :: "world \<Rightarrow> string \<Rightarrow> GitHubRepo \<Rightarrow> Context option \<times> world" where
  "set_context_repo w context_id github_repo =
     (case map_of (contexts w) context_id of
        None \<Rightarrow> (None, w)
      | Some context \<Rightarrow>
          (let (t, w) = now w;
               context = context\<lparr>ctx_github_repo := Some github_repo, ctx_updated_at := t\<rparr>
           in (Some context, store w context_id context)))"

definition set_context_contributors ::
  "world \<Rightarrow> string \<Rightarrow> GitHubContributor list \<Rightarrow> Context option \<times> world" where
  "set_context_contributors w context_id contributors =
     (case map_of (contexts w) context_id of
        None \<Rightarrow> (None, w)
      | Some context \<Rightarrow>
          (let (t, w) = now w;
               context = context\<lparr>ctx_contributors := contributors, ctx_updated_at := t\<rparr>
           in (Some context, store w context_id context)))"

text \<open>
  \<open>generate_default_files\<close>.  All four contents are generated from the context object,
  which \<open>add_file_to_context\<close> changes in place in between; the generators read the
  repository and the contributors only, which \<open>add_file_to_context\<close> leaves alone.
\<close>

definition generate_default_files :: "world \<Rightarrow> string \<Rightarrow> bool \<Rightarrow> Context option \<times> world" where
  "generate_default_files w context_id github_service =
     (case map_of (contexts w) context_id of
        None \<Rightarrow> (None, w)
      | Some context \<Rightarrow>
          (let (_, w) = add_file_to_context w context_id
                 \<lparr>ccf_name = ''stack.md'', ccf_file_type = STACK,
                  ccf_content = generate_stack_content context\<rparr>;
               (_, w) = add_file_to_context w context_id
                 \<lparr>ccf_name = ''business.md'', ccf_file_type = BUSINESS,
                  ccf_content = generate_business_content context\<rparr>;
               (_, w) = add_file_to_context w context_id
                 \<lparr>ccf_name = ''people.md'', ccf_file_type = PEOPLE,
                  ccf_content = generate_people_content context\<rparr>;
               (_, w) = add_file_to_context w context_id
                 \<lparr>ccf_name = ''guidelines.md'', ccf_file_type = GUIDELINES,
                  ccf_content = generate_guidelines_content context github_service\<rparr>
           in (map_of (contexts w) context_id, w)))"

section \<open>Sequences of store operations\<close>

text \<open>
  The calls a client of the store can make, as data, so that a property can be stated for
  every sequence of them.  \<open>apply_op\<close> makes the call and keeps the world; a
  \<open>create_context\<close> that raises leaves the world as it was.
\<close>

datatype store_op =
    CreateContext int string CreateContextRequest
  | UpdateContext string UpdateContextRequest
  | DeleteContext string
  | AddFile string CreateContextFileRequest
  | UpdateFile string string UpdateContextFileRequest
  | RemoveFile string string
  | SetRepoLink string GitHubRepo
  | SetContributors string "GitHubContributor list"
  | GenerateDefaultFiles string bool

fun apply_op :: "world \<Rightarrow> store_op \<Rightarrow> world" where
  "apply_op w (CreateContext user_id user_login request) =
     (case create_context w user_id user_login request of
        Inl e \<Rightarrow> w | Inr (context, w') \<Rightarrow> w')"
| "apply_op w (UpdateContext context_id request) = snd (update_context w context_id request)"
| "apply_op w (DeleteContext context_id) = snd (delete_context w context_id)"
| "apply_op w (AddFile context_id request) = snd (add_file_to_context w context_id request)"
| "apply_op w (UpdateFile context_id file_name request) =
     snd (update_context_file w context_id file_name request)"
| "apply_op w (RemoveFile context_id file_name) =
     snd (remove_file_from_context w context_id file_name)"
| "apply_op w (SetRepoLink context_id github_repo) =
     snd (set_context_repo w context_id github_repo)"
| "apply_op w (SetContributors context_id contributors) =
     snd (set_context_contributors w context_id contributors)"
| "apply_op w (GenerateDefaultFiles context_id github_service) =
     snd (generate_default_files w context_id github_service)"

definition run_ops :: "world \<Rightarrow> store_op list \<Rightarrow> world" where
  "run_ops w ops = foldl apply_op w ops"

text \<open>The file names of every stored context are pairwise different.\<close>

definition unique_file_names :: "world \<Rightarrow> bool" where
  "unique_file_names w =
     list_all (\<lambda>(context_id, context). distinct (map cf_name (ctx_files context))) (contexts w)"

section \<open>Contributor toggle (app/main.py)\<close>

text \<open>The user of the session, as \<open>get_current_user\<close> returns it.\<close>

record session_user =
  su_id :: int
  su_login :: string
  su_access_token :: string

text \<open>The loop that flips \<open>selected\<close> of the first contributor with that login.\<close>

fun toggle_first :: "string \<Rightarrow> GitHubContributor list \<Rightarrow> GitHubContributor list option" where
  "toggle_first login [] = None"
| "toggle_first login (contrib # rest) =
     (if gc_login contrib = login
      then Some (contrib\<lparr>gc_selected := \<not> gc_selected contrib\<rparr> # rest)
      else (case toggle_first login rest of
              None \<Rightarrow> None
            | Some rest \<Rightarrow> Some (contrib # rest)))"

record toggle_response =
  tr_context :: "Context option"
  tr_updated_file :: "ContextFile option"
  tr_contributor_login :: string
  tr_contributor_selected :: bool

definition toggle_contributor_selection ::
  "world \<Rightarrow> string \<Rightarrow> string \<Rightarrow> session_user option \<Rightarrow> exn + (toggle_response \<times> world)" where
  "toggle_contributor_selection w context_id login user =
     (case user of
        None \<Rightarrow> Inl (HTTPException 401 ''Authentication required'')
      | Some user \<Rightarrow>
     (case get_context w context_id of
        None \<Rightarrow> Inl (HTTPException 404 ''Context not found'')
      | Some context \<Rightarrow>
          if su_id user \<noteq> ctx_owner_id context
          then Inl (HTTPException 403 ''Access denied'')
          else
            (case toggle_first login (ctx_contributors context) of
               None \<Rightarrow> Inl (HTTPException 404 ''Contributor not found'')
             | Some contributors \<Rightarrow>
                 (let context = context\<lparr>ctx_contributors := contributors\<rparr>;
                      w = store w context_id context;
                      people_content = generate_people_content context;
                      (updated_file, w) =
                        update_context_file w context_id ''people.md''
                          \<lparr>ucf_content = people_content\<rparr>;
                      updated_context = get_context w context_id
                  in Inr (\<lparr>tr_context = updated_context,
                            tr_updated_file = updated_file,
                            tr_contributor_login = login,
                            tr_contributor_selected =
                              (case find (\<lambda>c. gc_login c = login)
                                      (case updated_context of
                                         None \<Rightarrow> [] | Some c \<Rightarrow> ctx_contributors c) of
                                 None \<Rightarrow> False | Some c \<Rightarrow> gc_selected c)\<rparr>, w)))))"

text \<open>The file named \<open>people.md\<close> that \<open>update_context_file\<close> would find, if any.\<close>

definition people_document :: "Context \<Rightarrow> ContextFile option" where
  "people_document context = find (\<lambda>f. cf_name f = ''people.md'') (ctx_files context)"

section \<open>Repository client (GitHubService, app/services.py)\<close>

text \<open>
  Library functions whose results the properties below do not depend on are parameters:
  \<^item> \<open>parse_repo_url\<close>: the groups of
    \<^verbatim>\<open>re.search(r'github\.com[:/]([^/]+)/([^/]+?)(?:\.git)?/?$', repo_url)\<close>, if it matches;
  \<^item> \<open>strftime\<close>: \<open>strftime('%Y%m%d-%H%M%S')\<close> of a clock reading;
  \<^item> \<open>b64encode\<close>: the base64 text of the UTF-8 bytes of a string;
  \<^item> \<open>validate_int\<close>: the validation of an \<open>int\<close> field by the model class;
  \<^item> \<open>str_exn\<close>, \<open>str_json\<close>: \<open>str()\<close> of an exception and of a decoded JSON value that is not
    a string.
\<close>

record library =
  parse_repo_url :: "string \<Rightarrow> (string \<times> string) option"
  strftime :: "datetime \<Rightarrow> string"
  b64encode :: "string \<Rightarrow> string"
  validate_int :: "json \<Rightarrow> int option"
  str_exn :: "exn \<Rightarrow> string"
  str_json :: "json \<Rightarrow> string"

text \<open>
  One call of \<open>client.get\<close>, \<open>client.post\<close> or \<open>client.put\<close>: the request joins \<open>sent\<close>, and
  the call raises or returns the status code and the decoded body.
\<close>

definition http :: "world \<Rightarrow> http_request \<Rightarrow> (exn + nat \<times> json option) \<times> world" where
  "http w request =
     (case github w (sent w) request of
        Unreachable message \<Rightarrow> Inl (TransportError message)
      | Reply status_code body \<Rightarrow> Inr (status_code, body),
      w\<lparr>sent := sent w @ [request]\<rparr>)"

text \<open>\<open>resp.json()\<close>, \<open>value[key]\<close>, \<open>value.get(key, fallback)\<close> and the text of a value in an f-string.\<close>

definition decode :: "json option \<Rightarrow> exn + json" where
  "decode body = (case body of None \<Rightarrow> Inl (ValueError ''JSONDecodeError'') | Some v \<Rightarrow> Inr v)"

definition subscript :: "json \<Rightarrow> string \<Rightarrow> exn + json" where
  "subscript v key =
     (case v of
        JObj d \<Rightarrow> (case map_of d key of None \<Rightarrow> Inl (KeyError key) | Some x \<Rightarrow> Inr x)
      | _ \<Rightarrow> Inl (TypeError ''not subscriptable''))"

definition dict_get :: "json \<Rightarrow> string \<Rightarrow> json \<Rightarrow> exn + json" where
  "dict_get v key fallback =
     (case v of
        JObj d \<Rightarrow> (case map_of d key of None \<Rightarrow> Inr fallback | Some x \<Rightarrow> Inr x)
      | _ \<Rightarrow> Inl (AttributeError ''get''))"

definition format :: "library \<Rightarrow> json \<Rightarrow> string" where
  "format lib v = (case v of JStr s \<Rightarrow> s | _ \<Rightarrow> str_json lib v)"

definition repos_url :: "string \<Rightarrow> string \<Rightarrow> string" where
  "repos_url owner repo = ''https://api.github.com/repos/'' @ owner @ ''/'' @ repo"

text \<open>
  Sequencing inside a \<open>try\<close> block: the first exception ends the block, with the world as
  it is by then.
\<close>

definition and_then ::
  "(exn + 'a) \<times> world \<Rightarrow> ('a \<Rightarrow> world \<Rightarrow> (exn + 'b) \<times> world) \<Rightarrow> (exn + 'b) \<times> world" where
  "and_then m f = (case m of (Inl e, w) \<Rightarrow> (Inl e, w) | (Inr x, w) \<Rightarrow> f x w)"

text \<open>
  \<open>get_repo_info\<close>.  Every exception inside it ends in \<open>return None\<close>, so the fields are read
  in the option monad: a missing key, a value of the wrong type and a failed validation
  all give \<open>None\<close>.
\<close>

definition str_field :: "json \<Rightarrow> string option" where
  "str_field v = (case v of JStr s \<Rightarrow> Some s | _ \<Rightarrow> None)"

definition optional_str_field :: "json \<Rightarrow> string option option" where
  "optional_str_field v = (case v of JNull \<Rightarrow> Some None | JStr s \<Rightarrow> Some (Some s) | _ \<Rightarrow> None)"

definition item :: "json \<Rightarrow> string \<Rightarrow> json option" where
  "item v key = (case subscript v key of Inl e \<Rightarrow> None | Inr x \<Rightarrow> Some x)"

definition item_or_none :: "json \<Rightarrow> string \<Rightarrow> json option" where
  "item_or_none v key = (case dict_get v key JNull of Inl e \<Rightarrow> None | Inr x \<Rightarrow> Some x)"

fun languages_field :: "library \<Rightarrow> (string \<times> json) list \<Rightarrow> (string \<times> int) list option" where
  "languages_field lib [] = Some []"
| "languages_field lib ((k, v) # rest) =
     (case validate_int lib v of
        None \<Rightarrow> None
      | Some n \<Rightarrow> map_option ((#) (k, n)) (languages_field lib rest))"

definition optional_languages_field :: "library \<Rightarrow> json \<Rightarrow> (string \<times> int) list option option" where
  "optional_languages_field lib v =
     (case v of
        JNull \<Rightarrow> Some None
      | JObj d \<Rightarrow> map_option Some (languages_field lib d)
      | _ \<Rightarrow> None)"

definition new_GitHubRepo :: "library \<Rightarrow> json \<Rightarrow> json \<Rightarrow> GitHubRepo option" where
  "new_GitHubRepo lib repo_data languages =
     do {
       owner_data \<leftarrow> item repo_data ''owner'';
       owner_login \<leftarrow> item owner_data ''login'';
       name \<leftarrow> item repo_data ''name'';
       full_name \<leftarrow> item repo_data ''full_name'';
       description \<leftarrow> item_or_none repo_data ''description'';
       html_url \<leftarrow> item repo_data ''html_url'';
       clone_url \<leftarrow> item repo_data ''clone_url'';
       default_branch \<leftarrow> item repo_data ''default_branch'';
       language \<leftarrow> item_or_none repo_data ''language'';
       owner \<leftarrow> str_field owner_login;
       name \<leftarrow> str_field name;
       full_name \<leftarrow> str_field full_name;
       description \<leftarrow> optional_str_field description;
       url \<leftarrow> str_field html_url;
       clone_url \<leftarrow> str_field clone_url;
       default_branch \<leftarrow> str_field default_branch;
       language \<leftarrow> optional_str_field language;
       languages \<leftarrow> optional_languages_field lib languages;
       Some \<lparr>repo_owner = owner, repo_name = name, repo_full_name = full_name,
             repo_description = description, repo_url = url, repo_clone_url = clone_url,
             repo_default_branch = default_branch, repo_language = language,
             repo_languages = languages\<rparr>
     }"

definition get_repo_info :: "library \<Rightarrow> world \<Rightarrow> string \<Rightarrow> string \<Rightarrow> GitHubRepo option \<times> world" where
  "get_repo_info lib w token url =
     (case parse_repo_url lib url of
        None \<Rightarrow> (None, w)
      | Some (owner, repo) \<Rightarrow>
          (case http w (HttpGet token (repos_url owner repo)) of
             (Inl e, w) \<Rightarrow> (None, w)
           | (Inr (status_code, body), w) \<Rightarrow>
               if status_code \<noteq> 200 then (None, w)
               else
                 (case body of
                    None \<Rightarrow> (None, w)
                  | Some repo_data \<Rightarrow>
                      (case http w (HttpGet token (repos_url owner repo @ ''/languages'')) of
                         (Inl e, w) \<Rightarrow> (None, w)
                       | (Inr (status_code, body), w) \<Rightarrow>
                           (case (if status_code = 200 then body else Some (JObj [])) of
                              None \<Rightarrow> (None, w)
                            | Some languages \<Rightarrow>
                                (new_GitHubRepo lib repo_data languages, w))))))"

text \<open>
  \<open>create_context_pr\<close>.  \<open>lower\<close> is \<open>str.lower\<close> on ASCII letters, \<open>join\<close> is \<open>str.join\<close>.  The
  steps of the \<open>try\<close> block are \<open>read_default_branch\<close> (the repository and the reference of
  its default branch), \<open>create_branch\<close>, \<open>create_files\<close> (the loop over \<open>files_to_create\<close>,
  where a refused file is only reported) and \<open>open_pull_request\<close>.
\<close>

definition lower :: "string \<Rightarrow> string" where
  "lower s = map (\<lambda>c. if CHR ''A'' \<le> c \<and> c \<le> CHR ''Z''
                       then char_of (of_char c + (32::nat)) else c) s"

definition replace_char :: "char \<Rightarrow> char \<Rightarrow> string \<Rightarrow> string" where
  "replace_char old new s = map (\<lambda>c. if c = old then new else c) s"

fun join :: "string \<Rightarrow> string list \<Rightarrow> string" where
  "join sep [] = []"
| "join sep [x] = x"
| "join sep (x # y # rest) = x @ sep @ join sep (y # rest)"

definition read_default_branch ::
  "world \<Rightarrow> string \<Rightarrow> string \<Rightarrow> string \<Rightarrow> library \<Rightarrow> (exn + json \<times> json) \<times> world" where
  "read_default_branch w token owner repo lib =
     and_then (http w (HttpGet token (repos_url owner repo))) (\<lambda>(status_code, body) w.
       if status_code \<noteq> 200 then (Inl (Exception ''Could not access repository''), w)
       else
     and_then (decode body, w) (\<lambda>repo_data w.
     and_then (subscript repo_data ''default_branch'', w) (\<lambda>default_branch w.
     and_then (http w (HttpGet token (repos_url owner repo @ ''/git/ref/heads/''
                                        @ format lib default_branch))) (\<lambda>(status_code, body) w.
       if status_code \<noteq> 200
       then (Inl (Exception ''Could not get default branch reference''), w)
       else
     and_then (decode body, w) (\<lambda>ref_data w.
     and_then (subscript ref_data ''object'', w) (\<lambda>object w.
     and_then (subscript object ''sha'', w) (\<lambda>latest_sha w.
       (Inr (default_branch, latest_sha), w))))))))"

definition create_branch ::
  "world \<Rightarrow> string \<Rightarrow> string \<Rightarrow> string \<Rightarrow> library \<Rightarrow> Context \<Rightarrow> json \<Rightarrow> (exn + string) \<times> world" where
  "create_branch w token owner repo lib context latest_sha =
     (let (t, w) = now w;
          branch_name = ''context-'' @ replace_char (CHR '' '') (CHR ''-'') (lower (ctx_name context))
                          @ ''-'' @ strftime lib t
      in and_then (http w (HttpPost token (repos_url owner repo @ ''/git/refs'')
                     (JObj [(''ref'', JStr (''refs/heads/'' @ branch_name)),
                            (''sha'', latest_sha)]))) (\<lambda>(status_code, body) w.
           if status_code \<noteq> 201 then (Inl (Exception ''Could not create branch''), w)
           else (Inr branch_name, w)))"

fun create_files ::
  "library \<Rightarrow> string \<Rightarrow> string \<Rightarrow> string \<Rightarrow> string \<Rightarrow> world \<Rightarrow> (string \<times> string) list
     \<Rightarrow> (exn + unit) \<times> world" where
  "create_files lib token owner repo branch_name w [] = (Inr (), w)"
| "create_files lib token owner repo branch_name w ((file_path, content) # rest) =
     and_then (http w (HttpPut token (repos_url owner repo @ ''/contents/'' @ file_path)
                 (JObj [(''message'', JStr (''Add '' @ file_path @ '' from context marketplace'')),
                        (''content'', JStr (b64encode lib content)),
                        (''branch'', JStr branch_name)]))) (\<lambda>(status_code, body) w.
       create_files lib token owner repo branch_name w rest)"

definition pr_body :: "Context \<Rightarrow> string \<Rightarrow> string" where
  "pr_body context user_login =
     ''This PR adds project context files from the Context Marketplace.'' @ nl @ nl
     @ ''**Context:** '' @ ctx_name context @ nl
     @ (if truthy (ctx_description context)
        then ''**Description:** '' @ py_or (ctx_description context) [] else []) @ nl @ nl
     @ ''## Files Added:'' @ nl
     @ join nl (map (\<lambda>file. ''- `.context/'' @ cf_name file @ ''`'') (ctx_files context)) @ nl @ nl
     @ ''## What is this?'' @ nl
     @ ''These files contain project context information including:'' @ nl
     @ ''- Technology stack and architecture'' @ nl
     @ ''- Business logic and requirements  '' @ nl
     @ ''- Team information and contributors'' @ nl
     @ ''- Development guidelines and standards'' @ nl @ nl
     @ ''The `.context/` directory helps new contributors understand the project quickly and provides context for AI tools and code assistants.''
     @ nl @ nl
     @ ''---'' @ nl
     @ ''*Created by @'' @ user_login @ '' via [Context Marketplace]()*'' @ nl"

definition open_pull_request ::
  "world \<Rightarrow> string \<Rightarrow> string \<Rightarrow> string \<Rightarrow> library \<Rightarrow> Context \<Rightarrow> string \<Rightarrow> string \<Rightarrow> json
     \<Rightarrow> (exn + json) \<times> world" where
  "open_pull_request w token owner repo lib context user_login branch_name default_branch =
     and_then (http w (HttpPost token (repos_url owner repo @ ''/pulls'')
                 (JObj [(''title'', JStr (''Add project context from '' @ ctx_name context)),
                        (''body'', JStr (pr_body context user_login)),
                        (''head'', JStr branch_name),
                        (''base'', default_branch)]))) (\<lambda>(status_code, body) w.
       if status_code \<noteq> 201 then
         and_then (decode body, w) (\<lambda>error_data w.
         and_then (dict_get error_data ''message'' (JStr ''Unknown error''), w) (\<lambda>message w.
           (Inl (Exception (''Could not create PR: '' @ format lib message)), w)))
       else
         and_then (decode body, w) (\<lambda>pr_data w. (subscript pr_data ''html_url'', w)))"

definition create_context_pr ::
  "library \<Rightarrow> world \<Rightarrow> string \<Rightarrow> string \<Rightarrow> string \<Rightarrow> Context \<Rightarrow> string \<Rightarrow> (exn + json) \<times> world" where
  "create_context_pr lib w token owner repo context user_login =
     (case
        and_then (read_default_branch w token owner repo lib) (\<lambda>(default_branch, latest_sha) w.
        and_then (create_branch w token owner repo lib context latest_sha) (\<lambda>branch_name w.
        and_then (create_files lib token owner repo branch_name w
                    (map (\<lambda>file. (''.context/'' @ cf_name file, cf_content file))
                       (ctx_files context))) (\<lambda>_ w.
          open_pull_request w token owner repo lib context user_login branch_name
            default_branch)))
      of
        (Inl e, w) \<Rightarrow> (Inl (Exception (''Failed to create pull request: '' @ str_exn lib e)), w)
      | (Inr pr_url, w) \<Rightarrow> (Inr pr_url, w))"

section \<open>Publish endpoint (app/main.py)\<close>

text \<open>
  \<open>create_pull_request\<close>, with \<open>require_auth\<close> and \<open>get_github_service\<close> as its dependencies.
  The \<open>HTTPException\<close> raised inside the \<open>try\<close> block for an absent \<open>repo_info\<close> is caught by
  the block's own \<open>except Exception\<close>, like the failure of \<open>create_context_pr\<close>.
\<close>

definition create_pull_request ::
  "library \<Rightarrow> world \<Rightarrow> string \<Rightarrow> session_user option \<Rightarrow> (exn + json) \<times> world" where
  "create_pull_request lib w context_id user =
     (case user of
        None \<Rightarrow> (Inl (HTTPException 401 ''Authentication required''), w)
      | Some user \<Rightarrow>
     (case get_context w context_id of
        None \<Rightarrow> (Inl (HTTPException 404 ''Context not found''), w)
      | Some context \<Rightarrow>
     (case ctx_github_repo context of
        None \<Rightarrow> (Inl (HTTPException 400 ''Context is not connected to a GitHub repository''), w)
      | Some github_repo \<Rightarrow>
          (case
             (case get_repo_info lib w (su_access_token user) (repo_url github_repo) of
                (None, w) \<Rightarrow>
                  (Inl (HTTPException 404 ''Repository not found or not accessible''), w)
              | (Some repo_info, w) \<Rightarrow>
                  create_context_pr lib w (su_access_token user) (repo_owner repo_info)
                    (repo_name repo_info) context (su_login user))
           of
             (Inl e, w) \<Rightarrow>
               (Inl (HTTPException 500 (''Error creating pull request: '' @ str_exn lib e)), w)
           | (Inr pr_url, w) \<Rightarrow> (Inr (JObj [(''pr_url'', pr_url)]), w)))))"

text \<open>
  The words of the publish property.  A read of the repository's metadata fails when the
  call raises or the status is not 200.  The endpoint reads the metadata twice before any
  branch is made: in \<open>get_repo_info\<close>, and again at the start of \<open>create_context_pr\<close>.
  A request is a read when it is a \<open>get\<close>; the branch is created by the \<open>post\<close> to
  \<open>/git/refs\<close>.
\<close>

definition read_failed :: "http_reply \<Rightarrow> bool" where
  "read_failed reply =
     (case reply of Unreachable message \<Rightarrow> True | Reply status_code body \<Rightarrow> status_code \<noteq> 200)"

definition prerequisite_read_fails :: "library \<Rightarrow> world \<Rightarrow> string \<Rightarrow> string \<Rightarrow> bool" where
  "prerequisite_read_fails lib w token url =
     (case get_repo_info lib w token url of
        (None, w1) \<Rightarrow> True
      | (Some repo_info, w1) \<Rightarrow>
          read_failed (github w1 (sent w1)
            (HttpGet token (repos_url (repo_owner repo_info) (repo_name repo_info)))))"

definition is_read :: "http_request \<Rightarrow> bool" where
  "is_read request = (case request of HttpGet token url \<Rightarrow> True | _ \<Rightarrow> False)"

definition creates_branch :: "http_request \<Rightarrow> bool" where
  "creates_branch request =
     (case request of HttpPost token url payload \<Rightarrow> suffix ''/git/refs'' url | _ \<Rightarrow> False)"

text \<open>
  Every stored context carries an id that the generator has drawn so far; and what a call of
  \<open>create_context\<close> returns, if it returns.
\<close>

definition ids_drawn :: "world \<Rightarrow> bool" where
  "ids_drawn w =
     list_all (\<lambda>(context_id, context). \<exists>i<uuid_draws w. ctx_id context = uuid_gen w i)
       (contexts w)"

text \<open>
  No stored context is linked to a descriptor with an empty URL.  The application links a
  context in one place only: the create endpoint calls \<open>set_context_repo\<close> with the
  descriptor that \<open>get_repo_info\<close> built for a truthy request URL, and the descriptor's
  URL is the repository's \<open>html_url\<close> as the host reports it.  \<open>links_nonempty\<close> says of
  a store operation that, if it links a descriptor, the descriptor's URL is not empty.
\<close>

definition linked_urls_nonempty :: "world \<Rightarrow> bool" where
  "linked_urls_nonempty w =
     list_all (\<lambda>(context_id, context).
        case ctx_github_repo context of None \<Rightarrow> True | Some repo \<Rightarrow> repo_url repo \<noteq> [])
       (contexts w)"

definition links_nonempty :: "store_op \<Rightarrow> bool" where
  "links_nonempty op =
     (case op of SetRepoLink context_id github_repo \<Rightarrow> repo_url github_repo \<noteq> [] | _ \<Rightarrow> True)"

definition returned :: "exn + (Context \<times> world) \<Rightarrow> Context option" where
  "returned r = (case r of Inl e \<Rightarrow> None | Inr (context, w) \<Rightarrow> Some context)"

section \<open>The generated documents, as described\<close>

text \<open>
  The stack document as the specification describes it: the language keys of the linked
  repository (none without a repository or without a language map), one bullet per
  listed language, and the fixed sections that follow.
\<close>

definition linked_languages :: "Context \<Rightarrow> string set" where
  "linked_languages context =
     (case ctx_github_repo context of
        None \<Rightarrow> {}
      | Some repo \<Rightarrow>
          (case repo_languages repo of None \<Rightarrow> {} | Some languages \<Rightarrow> fst ` set languages))"

text \<open>
  Alphabetical order, in the specification's word: the order of a dictionary, which does
  not tell upper-case letters from lower-case ones.
\<close>

definition alphabetical :: "string list \<Rightarrow> bool" where
  "alphabetical names = sorted (map lower names)"

definition bullet :: "string \<Rightarrow> string" where
  "bullet lang = ''- **'' @ lang @ ''**'' @ nl"

definition stack_placeholders :: string where
  "stack_placeholders =
     ''## Frameworks & Libraries'' @ nl
     @ ''_Add frameworks and libraries used in this project_'' @ nl @ nl
     @ ''## Tools & Services'' @ nl
     @ ''_Add development tools, CI/CD, and services used_'' @ nl @ nl
     @ ''## Architecture'' @ nl
     @ ''_Describe the high-level architecture of the project_'' @ nl"

text \<open>
  The people document as the specification describes it.  \<open>optional_line\<close> is the line of
  an optional field: no text at all when the field is absent or empty.  A contributor's
  subsection is the list \<open>contributor_lines\<close>: the heading with the display name, the
  profile link, one optional line per field, and the closing empty line.  The website's
  label is the raw value; its target gets \<open>https://\<close> in front when the value starts with
  neither \<open>http://\<close> nor \<open>https://\<close>.
\<close>

definition optional_line :: "string option \<Rightarrow> (string \<Rightarrow> string) \<Rightarrow> string" where
  "optional_line field line =
     (case field of None \<Rightarrow> [] | Some v \<Rightarrow> if v = [] then [] else line v)"

definition has_scheme :: "string \<Rightarrow> bool" where
  "has_scheme url = (prefix ''http://'' url \<or> prefix ''https://'' url)"

definition contributor_lines :: "GitHubContributor \<Rightarrow> string list" where
  "contributor_lines c =
     [''### '' @ (if truthy (gc_name c) then py_or (gc_name c) [] else gc_login c) @ nl,
      ''- **GitHub**: [@'' @ gc_login c @ ''](https://github.com/'' @ gc_login c @ '')'' @ nl,
      optional_line (gc_pronouns c) (\<lambda>v. ''- **Pronouns**: '' @ v @ nl),
      optional_line (gc_bio c) (\<lambda>v. ''- **Bio**: '' @ v @ nl),
      optional_line (gc_company c) (\<lambda>v. ''- **Company**: '' @ v @ nl),
      optional_line (gc_location c) (\<lambda>v. ''- **Location**: '' @ v @ nl),
      optional_line (gc_website c)
        (\<lambda>v. ''- **Website**: ['' @ v @ '']('' @ (if has_scheme v then v else ''https://'' @ v)
               @ '')'' @ nl),
      optional_line (gc_email c) (\<lambda>v. ''- **Email**: '' @ v @ nl),
      optional_line (gc_twitter_username c)
        (\<lambda>v. ''- **Twitter**: [@'' @ v @ ''](https://twitter.com/'' @ v @ '')'' @ nl),
      (if gc_hireable c = Some True then ''- **Available for hire**: Yes'' @ nl else []),
      nl]"

definition people_placeholders :: string where
  "people_placeholders =
     ''## Team Roles'' @ nl
     @ ''_Define roles and responsibilities_'' @ nl @ nl
     @ ''## Contact Information'' @ nl
     @ ''_Add relevant contact information_'' @ nl"

section \<open>Example worlds\<close>

text \<open>
  The world right after \<open>ContextService()\<close> is built (no context, an empty directory), for
  a given clock, UUID generator and repository host; and the parts of the examples used
  below: a clock that advances by one between readings, identifiers that differ from draw
  to draw, and a host that cannot be reached.
\<close>

definition fresh_world ::
  "(nat \<Rightarrow> datetime) \<Rightarrow> (nat \<Rightarrow> string) \<Rightarrow> (http_request list \<Rightarrow> http_request \<Rightarrow> http_reply)
     \<Rightarrow> world" where
  "fresh_world clk ids host =
     \<lparr>contexts = [], disk = (\<lambda>p. None), clock = clk, clock_reads = 0,
      uuid_gen = ids, uuid_draws = 0, github = host, sent = []\<rparr>"

definition ticking :: "nat \<Rightarrow> datetime" where
  "ticking n = int n"

definition numbered :: "nat \<Rightarrow> string" where
  "numbered n = ''ctx'' @ replicate n (CHR ''+'')"

definition offline :: "http_request list \<Rightarrow> http_request \<Rightarrow> http_reply" where
  "offline history request = Unreachable ''offline''"

definition start :: world where
  "start = fresh_world ticking numbered offline"

definition foo_request :: CreateContextRequest where
  "foo_request = new_CreateContextRequest ''Foo'' None None None"

definition notes_file :: CreateContextFileRequest where
  "notes_file = \<lparr>ccf_name = ''notes.md'', ccf_file_type = CUSTOM, ccf_content = ''first''\<rparr>"

definition one_file :: world where
  "one_file = run_ops start [CreateContext 1 ''alice'' foo_request, AddFile ''ctx'' notes_file]"

definition todo_file :: CreateContextFileRequest where
  "todo_file = \<lparr>ccf_name = ''todo.md'', ccf_file_type = CUSTOM, ccf_content = ''later''\<rparr>"

definition two_files :: world where
  "two_files =
     run_ops start
       [CreateContext 1 ''alice'' foo_request, AddFile ''ctx'' notes_file,
        AddFile ''ctx'' todo_file]"

definition demo_repo :: "string \<Rightarrow> GitHubRepo" where
  "demo_repo url =
     \<lparr>repo_owner = ''octo'', repo_name = ''demo'', repo_full_name = ''octo/demo'',
      repo_description = None, repo_url = url, repo_clone_url = url @ ''.git'',
      repo_default_branch = ''main'', repo_language = Some ''Go'',
      repo_languages = Some [(''Python'', 50), (''Go'', 100)]\<rparr>"

definition linked :: "string \<Rightarrow> world" where
  "linked url =
     run_ops start [CreateContext 1 ''alice'' foo_request, SetRepoLink ''ctx'' (demo_repo url)]"

definition contributor :: "string \<Rightarrow> GitHubContributor" where
  "contributor login =
     \<lparr>gc_login = login, gc_id = 7, gc_avatar_url = ''https://avatars.example/7'',
      gc_name = None, gc_email = None, gc_bio = None, gc_pronouns = None, gc_company = None,
      gc_website = None, gc_location = None, gc_twitter_username = None,
      gc_public_repos = None, gc_followers = None, gc_following = None, gc_created_at = None,
      gc_hireable = None, gc_contributions = 3, gc_selected = False\<rparr>"

definition mona :: GitHubContributor where
  "mona = (contributor ''mona'')
     \<lparr>gc_name := Some ''Mona'', gc_bio := Some [], gc_website := Some ''mona.example'',
      gc_hireable := Some False, gc_selected := True\<rparr>"

definition plain_context :: Context where
  "plain_context =
     \<lparr>ctx_id = ''ctx'', ctx_name = ''Foo'', ctx_description = None, ctx_owner_id = 1,
      ctx_owner_login = ''alice'', ctx_github_repo = None, ctx_files = [],
      ctx_contributors = [], ctx_is_public = True, ctx_created_at = 0, ctx_updated_at = 0\<rparr>"

definition styled_context :: Context where
  "styled_context =
     plain_context\<lparr>ctx_github_repo :=
       Some ((demo_repo ''https://github.com/octo/demo'')
               \<lparr>repo_languages := Some [(''CoffeeScript'', 10), (''CSS'', 5)]\<rparr>)\<rparr>"

definition alice :: session_user where
  "alice = \<lparr>su_id = 1, su_login = ''alice'', su_access_token = ''token''\<rparr>"

definition team :: world where
  "team =
     run_ops start
       [CreateContext 1 ''alice'' foo_request,
        SetContributors ''ctx'' [mona, contributor ''octo''],
        GenerateDefaultFiles ''ctx'' False]"

definition edited :: world where
  "edited = run_ops team [UpdateFile ''ctx'' ''people.md'' \<lparr>ucf_content = ''# Our team''\<rparr>]"

text \<open>
  Two toggles of the same contributor in a row, and the content of the people document of
  a stored context.
\<close>

definition toggled_twice :: "world \<Rightarrow> string \<Rightarrow> string \<Rightarrow> session_user option \<Rightarrow> world option" where
  "toggled_twice w context_id login user =
     (case toggle_contributor_selection w context_id login user of
        Inl e \<Rightarrow> None
      | Inr (response, w1) \<Rightarrow>
          (case toggle_contributor_selection w1 context_id login user of
             Inl e \<Rightarrow> None
           | Inr (response, w2) \<Rightarrow> Some w2))"

definition people_content :: "world \<Rightarrow> string \<Rightarrow> string option" where
  "people_content w context_id =
     (case get_context w context_id of
        None \<Rightarrow> None
      | Some context \<Rightarrow> map_option cf_content (people_document context))"

text \<open>
  A host that answers every request with 404, a stand-in for the library, and a world
  whose context is linked to a repository on that host.
\<close>

definition not_found :: "http_request list \<Rightarrow> http_request \<Rightarrow> http_reply" where
  "not_found history request = Reply 404 (Some (JObj [(''message'', JStr ''Not Found'')]))"

definition demo_library :: library where
  "demo_library =
     \<lparr>parse_repo_url = (\<lambda>url. if url = ''https://github.com/octo/demo''
                                then Some (''octo'', ''demo'') else None),
      strftime = (\<lambda>t. ''20240101-000000''),
      b64encode = (\<lambda>text. text),
      validate_int = (\<lambda>v. case v of JNum n \<Rightarrow> Some n | _ \<Rightarrow> None),
      str_exn = (\<lambda>e. ''error''),
      str_json = (\<lambda>v. ''value'')\<rparr>"

definition lost_repo :: world where
  "lost_repo =
     run_ops (fresh_world ticking numbered not_found)
       [CreateContext 1 ''alice'' foo_request,
        SetRepoLink ''ctx'' (demo_repo ''https://github.com/octo/demo'')]"

section \<open>Basic facts about the world\<close>

lemma now_fields [simp]:
  "contexts (snd (now w)) = contexts w" "disk (snd (now w)) = disk w"
  "clock (snd (now w)) = clock w" "clock_reads (snd (now w)) = Suc (clock_reads w)"
  "uuid_gen (snd (now w)) = uuid_gen w" "uuid_draws (snd (now w)) = uuid_draws w"
  "github (snd (now w)) = github w" "sent (snd (now w)) = sent w"
  "fst (now w) = clock w (clock_reads w)"
  by (simp_all add: now_def)

lemma save_context_fields [simp]:
  "contexts (save_context w c) = contexts w"
  "clock (save_context w c) = clock w" "clock_reads (save_context w c) = clock_reads w"
  "uuid_gen (save_context w c) = uuid_gen w" "uuid_draws (save_context w c) = uuid_draws w"
  "github (save_context w c) = github w" "sent (save_context w c) = sent w"
  by (simp_all add: save_context_def Let_def)

lemma write_files_other:
  "p \<notin> g ` set fs \<Longrightarrow> foldl (\<lambda>d f. d(g f \<mapsto> h f)) d fs p = d p"
  by (induction fs arbitrary: d) auto

lemma save_context_metadata:
  "disk (save_context w c) [''contexts'', ctx_id c, ''metadata.json''] = Some (Metadata c)"
  unfolding save_context_def Let_def
  by (simp add: write_files_other [where g = "\<lambda>f. [''contexts'', ctx_id c, ''files'', cf_name f]"]
        image_iff)

lemma store_fields [simp]:
  "contexts (store w k c) = AList.update k c (contexts w)"
  "clock (store w k c) = clock w" "clock_reads (store w k c) = clock_reads w"
  "uuid_gen (store w k c) = uuid_gen w" "uuid_draws (store w k c) = uuid_draws w"
  "github (store w k c) = github w" "sent (store w k c) = sent w"
  by (simp_all add: store_def)

lemma store_metadata:
  "disk (store w k c) [''contexts'', ctx_id c, ''metadata.json''] = Some (Metadata c)"
  by (simp add: store_def save_context_metadata)

lemma get_context_store:
  "get_context (store w k c) k' = (if k' = k then Some c else get_context w k')"
  by (simp add: get_context_def update_conv')

lemma filter_names_id:
  "n \<notin> cf_name ` set fs \<Longrightarrow> filter (\<lambda>f. cf_name f \<noteq> n) fs = fs"
  by (induction fs) auto

lemma filter_names_shorter:
  "n \<in> cf_name ` set fs \<Longrightarrow> length (filter (\<lambda>f. cf_name f \<noteq> n) fs) < length fs"
  by (induction fs) (auto simp: less_Suc_eq_le)

lemma store_metadata_at:
  "i = ctx_id c \<Longrightarrow> disk (store w k c) [''contexts'', i, ''metadata.json''] = Some (Metadata c)"
  by (simp add: store_metadata)

section \<open>The example worlds, evaluated\<close>

lemmas eval_defs = one_file_def two_files_def todo_file_def linked_def team_def edited_def
  run_ops_def start_def
  fresh_world_def ticking_def numbered_def offline_def foo_request_def notes_file_def
  new_CreateContextRequest_def alice_def mona_def contributor_def
  create_context_def add_file_to_context_def set_context_repo_def
  set_context_contributors_def generate_default_files_def update_context_file_def
  now_def uuid4_def truthy_def py_or_def
  get_context_by_repo_url_def linked_to_def get_context_def Let_def
  toggled_twice_def toggle_contributor_selection_def people_content_def people_document_def


lemma one_file_clock: "clock_reads one_file = 5" "clock one_file = ticking"
  by (simp_all add: eval_defs)




section \<open>Removing a file\<close>



section \<open>Updating a context\<close>



section \<open>Properties of every stored context\<close>

text \<open>
  A property \<open>P\<close> of contexts that depends on the id and the file names only, and that
  survives appending a name after removing it and removing a name, holds of every stored
  context after a store operation if it held before.
\<close>

lemma update_values:
  "P v \<Longrightarrow> \<forall>c\<in>snd ` set al. P c \<Longrightarrow> \<forall>c\<in>snd ` set (AList.update k v al). P c"
  by (induction al) auto

lemma delete_values:
  "\<forall>c\<in>snd ` set al. P c \<Longrightarrow> \<forall>c\<in>snd ` set (AList.delete k al). P c"
  by (induction al) auto

lemma stored_value: "map_of al k = Some c \<Longrightarrow> c \<in> snd ` set al"
  by (force dest: map_of_SomeD)

lemma update_first_names:
  "update_first n content t fs = Some (f, fs') \<Longrightarrow> map cf_name fs' = map cf_name fs"
  by (induction fs arbitrary: fs') (auto simp: Let_def split: if_splits option.splits)

lemma names_filter:
  "map cf_name (filter (\<lambda>f. cf_name f \<noteq> n) fs) = filter (\<lambda>x. x \<noteq> n) (map cf_name fs)"
  by (induction fs) auto

lemma add_file_stored:
  assumes add: "\<And>c c' n. P c \<Longrightarrow> ctx_id c' = ctx_id c \<Longrightarrow>
                  map cf_name (ctx_files c') = filter (\<lambda>x. x \<noteq> n) (map cf_name (ctx_files c)) @ [n]
                  \<Longrightarrow> P c'"
      and all: "\<forall>c\<in>snd ` set (contexts w). P c"
  shows "\<forall>c\<in>snd ` set (contexts (snd (add_file_to_context w k request))). P c"
proof (cases "map_of (contexts w) k")
  case None
  then show ?thesis using all by (simp add: add_file_to_context_def)
next
  case (Some c)
  define c' where
    "c' = c\<lparr>ctx_files := filter (\<lambda>f. cf_name f \<noteq> ccf_name request) (ctx_files c) @
                 [\<lparr>cf_name = ccf_name request, cf_file_type = ccf_file_type request,
                   cf_content = ccf_content request,
                   cf_created_at = clock w (clock_reads w),
                   cf_updated_at = clock w (Suc (clock_reads w))\<rparr>],
              ctx_updated_at := clock w (Suc (Suc (clock_reads w)))\<rparr>"
  have after: "contexts (snd (add_file_to_context w k request)) = AList.update k c' (contexts w)"
    using Some by (simp add: add_file_to_context_def Let_def split_beta c'_def)
  have "P c" using Some all stored_value by fastforce
  then have "P c'"
    by (rule add [where n = "ccf_name request"]) (simp_all add: c'_def names_filter)
  then show ?thesis
    unfolding after using all by (rule update_values)
qed


lemma update_context_stored:
  assumes keep: "\<And>c c'. P c \<Longrightarrow> ctx_id c' = ctx_id c \<Longrightarrow>
                  map cf_name (ctx_files c') = map cf_name (ctx_files c) \<Longrightarrow> P c'"
      and all: "\<forall>c\<in>snd ` set (contexts w). P c"
  shows "\<forall>c\<in>snd ` set (contexts (snd (update_context w k request))). P c"
proof (cases "map_of (contexts w) k")
  case None
  then show ?thesis using all by (simp add: update_context_def)
next
  case (Some c)
  have "P c" using Some all stored_value by fastforce
  obtain c' w' where run: "update_context w k request = (Some c', w')"
    using Some by (simp add: update_context_def Let_def split_beta)
  have after: "contexts (snd (update_context w k request)) = AList.update k c' (contexts w)"
    and same: "ctx_id c' = ctx_id c" "ctx_files c' = ctx_files c"
    using Some run
    by (cases "ucr_name request"; cases "ucr_description request"; cases "ucr_is_public request";
        clarsimp simp: update_context_def Let_def split_beta)+
  have "P c'" by (rule keep [OF \<open>P c\<close>]) (simp_all add: same)
  then show ?thesis
    unfolding after using all by (rule update_values)
qed

lemma update_context_file_stored:
  assumes keep: "\<And>c c'. P c \<Longrightarrow> ctx_id c' = ctx_id c \<Longrightarrow>
                  map cf_name (ctx_files c') = map cf_name (ctx_files c) \<Longrightarrow> P c'"
      and all: "\<forall>c\<in>snd ` set (contexts w). P c"
  shows "\<forall>c\<in>snd ` set (contexts (snd (update_context_file w k file_name request))). P c"
proof (cases "map_of (contexts w) k")
  case None
  then show ?thesis using all by (simp add: update_context_file_def)
next
  case (Some c)
  have "P c" using Some all stored_value by fastforce
  show ?thesis
  proof (cases "update_first file_name (ucf_content request) (clock w (clock_reads w)) (ctx_files c)")
    case None
    with Some all show ?thesis
      by (simp add: update_context_file_def Let_def split_beta now_def)
  next
    case found: (Some r)
    obtain f fs where r: "r = (f, fs)" by (cases r)
    define c' where
      "c' = c\<lparr>ctx_files := fs, ctx_updated_at := clock w (Suc (clock_reads w))\<rparr>"
    have after: "contexts (snd (update_context_file w k file_name request))
                   = AList.update k c' (contexts w)"
      using Some found r by (simp add: update_context_file_def Let_def split_beta now_def c'_def)
    have names: "map cf_name fs = map cf_name (ctx_files c)"
      using update_first_names [OF found [unfolded r]] .
    have "P c'" by (rule keep [OF \<open>P c\<close>]) (simp_all add: c'_def names)
    then show ?thesis
      unfolding after using all by (rule update_values)
  qed
qed

lemma remove_file_stored:
  assumes drop: "\<And>c c' n. P c \<Longrightarrow> ctx_id c' = ctx_id c \<Longrightarrow>
                  map cf_name (ctx_files c') = filter (\<lambda>x. x \<noteq> n) (map cf_name (ctx_files c))
                  \<Longrightarrow> P c'"
      and all: "\<forall>c\<in>snd ` set (contexts w). P c"
  shows "\<forall>c\<in>snd ` set (contexts (snd (remove_file_from_context w k file_name))). P c"
proof (cases "map_of (contexts w) k")
  case None
  then show ?thesis using all by (simp add: remove_file_from_context_def)
next
  case (Some c)
  have "P c" using Some all stored_value by fastforce
  show ?thesis
  proof (cases "file_name \<in> cf_name ` set (ctx_files c)")
    case False
    with Some all show ?thesis
      by (simp add: remove_file_from_context_def Let_def filter_names_id update_triv)
  next
    case True
    define c' where
      "c' = c\<lparr>ctx_files := filter (\<lambda>f. cf_name f \<noteq> file_name) (ctx_files c),
               ctx_updated_at := clock w (clock_reads w)\<rparr>"
    have after: "contexts (snd (remove_file_from_context w k file_name))
                   = AList.update k c' (contexts w)"
      using Some True
      by (simp add: remove_file_from_context_def Let_def split_beta now_def c'_def
            filter_names_shorter)
    from \<open>P c\<close> have "P c'"
      by (rule drop [where n = file_name]) (simp_all add: c'_def names_filter)
    then show ?thesis
      unfolding after using all by (rule update_values)
  qed
qed

lemma set_context_repo_stored:
  assumes keep: "\<And>c c'. P c \<Longrightarrow> ctx_id c' = ctx_id c \<Longrightarrow>
                  map cf_name (ctx_files c') = map cf_name (ctx_files c) \<Longrightarrow> P c'"
      and all: "\<forall>c\<in>snd ` set (contexts w). P c"
  shows "\<forall>c\<in>snd ` set (contexts (snd (set_context_repo w k github_repo))). P c"
proof (cases "map_of (contexts w) k")
  case None
  then show ?thesis using all by (simp add: set_context_repo_def)
next
  case (Some c)
  define c' where
    "c' = c\<lparr>ctx_github_repo := Some github_repo, ctx_updated_at := clock w (clock_reads w)\<rparr>"
  have after: "contexts (snd (set_context_repo w k github_repo)) = AList.update k c' (contexts w)"
    using Some by (simp add: set_context_repo_def Let_def split_beta now_def c'_def)
  have "P c" using Some all stored_value by fastforce
  then have "P c'" by (rule keep) (simp_all add: c'_def)
  then show ?thesis
    unfolding after using all by (rule update_values)
qed

lemma set_context_contributors_stored:
  assumes keep: "\<And>c c'. P c \<Longrightarrow> ctx_id c' = ctx_id c \<Longrightarrow>
                  map cf_name (ctx_files c') = map cf_name (ctx_files c) \<Longrightarrow> P c'"
      and all: "\<forall>c\<in>snd ` set (contexts w). P c"
  shows "\<forall>c\<in>snd ` set (contexts (snd (set_context_contributors w k contributors))). P c"
proof (cases "map_of (contexts w) k")
  case None
  then show ?thesis using all by (simp add: set_context_contributors_def)
next
  case (Some c)
  define c' where
    "c' = c\<lparr>ctx_contributors := contributors, ctx_updated_at := clock w (clock_reads w)\<rparr>"
  have after: "contexts (snd (set_context_contributors w k contributors))
                 = AList.update k c' (contexts w)"
    using Some by (simp add: set_context_contributors_def Let_def split_beta now_def c'_def)
  have "P c" using Some all stored_value by fastforce
  then have "P c'" by (rule keep) (simp_all add: c'_def)
  then show ?thesis
    unfolding after using all by (rule update_values)
qed

lemma delete_context_stored:
  assumes all: "\<forall>c\<in>snd ` set (contexts w). P c"
  shows "\<forall>c\<in>snd ` set (contexts (snd (delete_context w k))). P c"
  using delete_values [OF all, of k]
  by (simp add: delete_context_def delete_context_files_def all)

lemma generate_default_files_stored:
  assumes add: "\<And>c c' n. P c \<Longrightarrow> ctx_id c' = ctx_id c \<Longrightarrow>
                  map cf_name (ctx_files c') = filter (\<lambda>x. x \<noteq> n) (map cf_name (ctx_files c)) @ [n]
                  \<Longrightarrow> P c'"
      and all: "\<forall>c\<in>snd ` set (contexts w). P c"
  shows "\<forall>c\<in>snd ` set (contexts (snd (generate_default_files w k github_service))). P c"
proof (cases "map_of (contexts w) k")
  case None
  then show ?thesis using all by (simp add: generate_default_files_def)
next
  case (Some c)
  have "\<exists>r1 r2 r3 r4. snd (generate_default_files w k github_service) =
          snd (add_file_to_context (snd (add_file_to_context (snd (add_file_to_context
            (snd (add_file_to_context w k r1)) k r2)) k r3)) k r4)"
    using Some by (simp add: generate_default_files_def Let_def split_beta) blast
  then obtain r1 r2 r3 r4 where after: "snd (generate_default_files w k github_service) =
          snd (add_file_to_context (snd (add_file_to_context (snd (add_file_to_context
            (snd (add_file_to_context w k r1)) k r2)) k r3)) k r4)"
    by blast
  show ?thesis
    unfolding after by (intro add_file_stored [OF add] all)
qed

lemma create_context_stored:
  assumes fresh: "\<And>c. ctx_id c = uuid_gen w (uuid_draws w) \<Longrightarrow> ctx_files c = [] \<Longrightarrow> P c"
      and all: "\<forall>c\<in>snd ` set (contexts w). P c"
      and run: "create_context w user_id user_login request = Inr (c, w')"
  shows "\<forall>c\<in>snd ` set (contexts w'). P c"
proof -
  have after: "contexts w' = AList.update (ctx_id c) c (contexts w)"
    and new: "ctx_id c = uuid_gen w (uuid_draws w)" "ctx_files c = []"
    using run
    by (auto simp: create_context_def Let_def split_beta uuid4_def now_def split: if_splits)
  have "P c" using new by (rule fresh)
  then show ?thesis
    unfolding after using all by (rule update_values)
qed

lemma apply_op_stored:
  assumes keep: "\<And>c c'. P c \<Longrightarrow> ctx_id c' = ctx_id c \<Longrightarrow>
                  map cf_name (ctx_files c') = map cf_name (ctx_files c) \<Longrightarrow> P c'"
      and add: "\<And>c c' n. P c \<Longrightarrow> ctx_id c' = ctx_id c \<Longrightarrow>
                  map cf_name (ctx_files c') = filter (\<lambda>x. x \<noteq> n) (map cf_name (ctx_files c)) @ [n]
                  \<Longrightarrow> P c'"
      and drop: "\<And>c c' n. P c \<Longrightarrow> ctx_id c' = ctx_id c \<Longrightarrow>
                  map cf_name (ctx_files c') = filter (\<lambda>x. x \<noteq> n) (map cf_name (ctx_files c))
                  \<Longrightarrow> P c'"
      and fresh: "\<And>c. ctx_id c = uuid_gen w (uuid_draws w) \<Longrightarrow> ctx_files c = [] \<Longrightarrow>
                  uuid_draws (apply_op w op) = Suc (uuid_draws w) \<Longrightarrow> P c"
      and all: "\<forall>c\<in>snd ` set (contexts w). P c"
  shows "\<forall>c\<in>snd ` set (contexts (apply_op w op)). P c"
proof (cases op)
  case (CreateContext user_id user_login request)
  show ?thesis
  proof (cases "create_context w user_id user_login request")
    case (Inl e)
    with CreateContext all show ?thesis by simp
  next
    case (Inr r)
    obtain c w' where r: "r = (c, w')" by (cases r)
    have w': "apply_op w op = w'" using CreateContext Inr r by simp
    have draws: "uuid_draws w' = Suc (uuid_draws w)"
      using Inr r
      by (auto simp: create_context_def Let_def split_beta uuid4_def now_def split: if_splits)
    show ?thesis
      unfolding w'
      by (rule create_context_stored [OF _ all Inr [unfolded r]])
         (rule fresh, simp_all add: w' draws)
  qed
next
  case (UpdateContext k request)
  then show ?thesis using update_context_stored [OF keep all] by simp
next
  case (DeleteContext k)
  then show ?thesis using delete_context_stored [OF all] by simp
next
  case (AddFile k request)
  then show ?thesis using add_file_stored [OF add all] by simp
next
  case (UpdateFile k file_name request)
  then show ?thesis using update_context_file_stored [OF keep all] by simp
next
  case (RemoveFile k file_name)
  then show ?thesis using remove_file_stored [OF drop all] by simp
next
  case (SetRepoLink k github_repo)
  then show ?thesis using set_context_repo_stored [OF keep all] by simp
next
  case (SetContributors k contributors)
  then show ?thesis using set_context_contributors_stored [OF keep all] by simp
next
  case (GenerateDefaultFiles k github_service)
  then show ?thesis using generate_default_files_stored [OF add all] by simp
qed

lemma unique_file_names_iff:
  "unique_file_names w \<longleftrightarrow>
     (\<forall>c\<in>snd ` set (contexts w). distinct (map cf_name (ctx_files c)))"
  by (auto simp: unique_file_names_def list_all_iff)

lemma apply_op_unique:
  assumes "unique_file_names w"
  shows "unique_file_names (apply_op w op)"
  unfolding unique_file_names_iff
  by (rule apply_op_stored [where P = "\<lambda>c. distinct (map cf_name (ctx_files c))"])
     (use assms in \<open>auto simp: unique_file_names_iff\<close>)

lemma run_ops_unique:
  "unique_file_names w \<Longrightarrow> unique_file_names (run_ops w ops)"
  unfolding run_ops_def
  by (induction ops arbitrary: w) (simp_all add: apply_op_unique)

section \<open>Unique file names\<close>

text \<open>
  Claim C3.  No context of the fresh store has two files of one name, and whenever that
  holds of a world it holds after every sequence of store operations: \<open>add_file_to_context\<close>,
  \<open>update_context_file\<close>, \<open>remove_file_from_context\<close>, \<open>update_context\<close>,
  \<open>set_context_repo\<close> and \<open>set_context_contributors\<close>, and also \<open>create_context\<close>,
  \<open>delete_context\<close> and \<open>generate_default_files\<close>.
\<close>

theorem file_names_stay_unique:
  "unique_file_names (fresh_world clk ids host) \<and>
   (unique_file_names w \<longrightarrow> unique_file_names (run_ops w ops))"
  by (simp add: run_ops_unique) (simp add: unique_file_names_def fresh_world_def)

lemma one_file_unique: "unique_file_names one_file"
  by (simp add: unique_file_names_def eval_defs)

theorem file_names_stay_unique_witness:
  "unique_file_names one_file \<and>
   unique_file_names
     (run_ops one_file
        [AddFile ''ctx'' notes_file,
         UpdateFile ''ctx'' ''notes.md'' \<lparr>ucf_content = ''second''\<rparr>,
         RemoveFile ''ctx'' ''other.md'',
         GenerateDefaultFiles ''ctx'' False,
         AddFile ''ctx'' notes_file])"
  using file_names_stay_unique [of ticking numbered offline one_file] one_file_unique
  by simp

section \<open>Replacing a file\<close>




section \<open>Creating a context\<close>

lemma add_file_uuid [simp]:
  "uuid_gen (snd (add_file_to_context w k r)) = uuid_gen w"
  "uuid_draws (snd (add_file_to_context w k r)) = uuid_draws w"
  by (simp_all add: add_file_to_context_def Let_def split_beta split: option.splits)

lemma apply_op_uuid_gen: "uuid_gen (apply_op w op) = uuid_gen w"
  by (cases op)
     (simp_all add: create_context_def update_context_def delete_context_def
        delete_context_files_def update_context_file_def remove_file_from_context_def
        set_context_repo_def set_context_contributors_def generate_default_files_def
        uuid4_def Let_def split_beta split: option.splits sum.splits if_splits)

lemma apply_op_uuid_draws:
  "uuid_draws (apply_op w op) = uuid_draws w \<or> uuid_draws (apply_op w op) = Suc (uuid_draws w)"
  by (cases op)
     (simp_all add: create_context_def update_context_def delete_context_def
        delete_context_files_def update_context_file_def remove_file_from_context_def
        set_context_repo_def set_context_contributors_def generate_default_files_def
        uuid4_def Let_def split_beta split: option.splits sum.splits if_splits)

lemma ids_drawn_iff:
  "ids_drawn w \<longleftrightarrow> (\<forall>c\<in>snd ` set (contexts w). ctx_id c \<in> uuid_gen w ` {..<uuid_draws w})"
  by (fastforce simp: ids_drawn_def list_all_iff image_iff)

lemma apply_op_ids_drawn:
  assumes "ids_drawn w"
  shows "ids_drawn (apply_op w op)"
proof -
  have all: "\<forall>c\<in>snd ` set (contexts w). ctx_id c \<in> uuid_gen w ` {..<uuid_draws (apply_op w op)}"
    using assms apply_op_uuid_draws [of w op] by (auto simp: ids_drawn_iff)
  have "\<forall>c\<in>snd ` set (contexts (apply_op w op)).
          ctx_id c \<in> uuid_gen w ` {..<uuid_draws (apply_op w op)}"
    by (rule apply_op_stored [OF _ _ _ _ all]) simp_all
  then show ?thesis
    by (simp add: ids_drawn_iff apply_op_uuid_gen)
qed

lemma run_ops_ids_drawn: "ids_drawn w \<Longrightarrow> ids_drawn (run_ops w ops)"
  unfolding run_ops_def
  by (induction ops arbitrary: w) (simp_all add: apply_op_ids_drawn)

lemma run_ops_uuid_gen: "uuid_gen (run_ops w ops) = uuid_gen w"
  unfolding run_ops_def
  by (induction ops arbitrary: w) (simp_all add: apply_op_uuid_gen)

lemma fresh_world_ids_drawn: "ids_drawn (fresh_world clk ids host)"
  by (simp add: ids_drawn_def fresh_world_def)

lemma find_linked:
  "get_context_by_repo_url w user_id url \<noteq> None \<longleftrightarrow>
     (\<exists>c\<in>snd ` set (contexts w). linked_to user_id url c)"
  by (auto simp: get_context_by_repo_url_def find_None_iff)


lemma inj_numbered: "inj numbered"
proof (rule injI)
  fix m n assume "numbered m = numbered n"
  then have "length (numbered m) = length (numbered n)" by simp
  then show "m = n" by (simp add: numbered_def)
qed

lemma one_file_uuid: "uuid_draws one_file = 1" "uuid_gen one_file = numbered"
  by (simp_all add: eval_defs)

lemma linked_context:
  "get_context (linked url) ''ctx'' = Some
     \<lparr>ctx_id = ''ctx'', ctx_name = ''Foo'', ctx_description = None,
      ctx_owner_id = 1, ctx_owner_login = ''alice'', ctx_github_repo = Some (demo_repo url),
      ctx_files = [], ctx_contributors = [], ctx_is_public = True, ctx_created_at = 0,
      ctx_updated_at = 2\<rparr>"
  "contexts (linked url) = [(''ctx'',
     \<lparr>ctx_id = ''ctx'', ctx_name = ''Foo'', ctx_description = None,
      ctx_owner_id = 1, ctx_owner_login = ''alice'', ctx_github_repo = Some (demo_repo url),
      ctx_files = [], ctx_contributors = [], ctx_is_public = True, ctx_created_at = 0,
      ctx_updated_at = 2\<rparr>)]"
  by (simp_all add: eval_defs)

text \<open>
  Claim C1, as the code has it.  A context that \<open>create_context\<close> returns has the id that
  the UUID generator drew for this call and is stored under it, beside the contexts that
  were there; in a world reached from the fresh store by store operations, with a
  generator that never repeats itself, no stored context had that id.  Its \<open>files\<close> and
  \<open>contributors\<close> are empty, \<open>github_repo\<close> is absent, and \<open>is_public\<close> is the request's
  value, which is \<open>True\<close> for a request built without it.  Its \<open>created_at\<close> and
  \<open>updated_at\<close> are two successive clock readings, in that order: they are equal exactly
  when the clock shows the same time at both.
\<close>

theorem create_context_result:
  assumes run: "create_context w user_id user_login request = Inr (ctx, w')"
  shows "ctx_id ctx = uuid_gen w (uuid_draws w) \<and>
     uuid_draws w' = Suc (uuid_draws w) \<and>
     get_context w' (ctx_id ctx) = Some ctx \<and>
     (\<forall>other. other \<noteq> ctx_id ctx \<longrightarrow> get_context w' other = get_context w other) \<and>
     (\<forall>clk ids host ops. w = run_ops (fresh_world clk ids host) ops \<and> inj ids \<longrightarrow>
        (\<forall>c\<in>snd ` set (contexts w). ctx_id c \<noteq> ctx_id ctx)) \<and>
     ctx_created_at ctx = clock w (clock_reads w) \<and>
     ctx_updated_at ctx = clock w (Suc (clock_reads w)) \<and>
     (ctx_created_at ctx = ctx_updated_at ctx \<longleftrightarrow>
        clock w (clock_reads w) = clock w (Suc (clock_reads w))) \<and>
     ctx_files ctx = [] \<and> ctx_contributors ctx = [] \<and> ctx_github_repo ctx = None \<and>
     ctx_is_public ctx = ccr_is_public request \<and>
     ccr_is_public (new_CreateContextRequest name description url None) = True \<and>
     ccr_is_public (new_CreateContextRequest name description url (Some b)) = b \<and>
     ctx_name ctx = ccr_name request \<and> ctx_description ctx = ccr_description request \<and>
     ctx_owner_id ctx = user_id \<and> ctx_owner_login ctx = user_login \<and>
     disk w' [''contexts'', ctx_id ctx, ''metadata.json''] = Some (Metadata ctx)"
proof -
  define c where
    "c = \<lparr>ctx_id = uuid_gen w (uuid_draws w), ctx_name = ccr_name request,
          ctx_description = ccr_description request, ctx_owner_id = user_id,
          ctx_owner_login = user_login, ctx_github_repo = None, ctx_files = [],
          ctx_contributors = [], ctx_is_public = ccr_is_public request,
          ctx_created_at = clock w (clock_reads w),
          ctx_updated_at = clock w (Suc (clock_reads w))\<rparr>"
  define w1 where "w1 = snd (now (snd (now (snd (uuid4 w)))))"
  have ctx: "ctx = c" and w': "w' = store w1 (ctx_id c) c"
    using run
    by (auto simp: create_context_def Let_def split_beta uuid4_def now_def store_def c_def
          w1_def split: if_splits)
  have w1: "contexts w1 = contexts w" "uuid_draws w1 = Suc (uuid_draws w)"
    by (simp_all add: w1_def uuid4_def)
  have others: "\<forall>other. other \<noteq> ctx_id c \<longrightarrow> get_context w' other = get_context w other"
    by (simp add: w' get_context_store) (simp add: get_context_def w1)
  have unique: "\<forall>c'\<in>snd ` set (contexts w). ctx_id c' \<noteq> ctx_id c"
    if reach: "w = run_ops (fresh_world clk ids host) ops" and inj: "inj ids"
    for clk ids host ops
  proof
    fix c' assume "c' \<in> snd ` set (contexts w)"
    moreover have "ids_drawn w"
      unfolding reach by (rule run_ops_ids_drawn [OF fresh_world_ids_drawn])
    ultimately obtain i where i: "i < uuid_draws w" "ctx_id c' = uuid_gen w i"
      by (auto simp: ids_drawn_iff)
    have gen: "uuid_gen w = ids"
      unfolding reach by (simp add: run_ops_uuid_gen fresh_world_def)
    from i inj show "ctx_id c' \<noteq> ctx_id c"
      by (auto simp: c_def gen dest: injD)
  qed
  show ?thesis
    unfolding ctx
    using others unique
    by (simp add: w' get_context_store store_metadata_at w1 new_CreateContextRequest_def)
       (simp add: c_def)
qed

theorem create_context_witness:
  "returned (create_context one_file 2 ''bob'' foo_request) \<noteq> None \<and>
   map_option ctx_id (returned (create_context one_file 2 ''bob'' foo_request)) = Some ''ctx+'' \<and>
   map_option ctx_created_at (returned (create_context one_file 2 ''bob'' foo_request)) = Some 5 \<and>
   map_option ctx_updated_at (returned (create_context one_file 2 ''bob'' foo_request)) = Some 6 \<and>
   map_option ctx_is_public (returned (create_context one_file 2 ''bob'' foo_request)) = Some True \<and>
   ''ctx+'' \<notin> ctx_id ` snd ` set (contexts one_file)"
proof -
  obtain ctx w' where run: "create_context one_file 2 ''bob'' foo_request = Inr (ctx, w')"
    by (simp add: create_context_def foo_request_def new_CreateContextRequest_def truthy_def
          Let_def split_beta)
  have reach: "one_file = run_ops (fresh_world ticking numbered offline)
                 [CreateContext 1 ''alice'' foo_request, AddFile ''ctx'' notes_file]"
    by (simp add: one_file_def start_def)
  have public: "ccr_is_public foo_request = True"
    by (simp add: foo_request_def new_CreateContextRequest_def)
  have id: "numbered (Suc 0) = ''ctx+''"
    by (simp add: numbered_def)
  note result = create_context_result [OF run]
  from result reach inj_numbered
  have unique: "\<forall>c\<in>snd ` set (contexts one_file). ctx_id c \<noteq> ctx_id ctx"
    by blast
  from result unique show ?thesis
    by (auto simp: run returned_def one_file_clock one_file_uuid ticking_def public id)
qed

text \<open>
  Claim C1 as stated asks for \<open>created_at = updated_at\<close>.  With a clock that advances
  between two readings the first context of the fresh store is created at 0 and updated
  at 1.
\<close>

theorem create_context_timestamps_counterexample:
  "map_option ctx_created_at (returned (create_context start 1 ''alice'' foo_request)) = Some 0 \<and>
   map_option ctx_updated_at (returned (create_context start 1 ''alice'' foo_request)) = Some 1"
  by (simp add: returned_def eval_defs)

text \<open>
  What \<open>create_context\<close> does in any world: it raises the duplicate error exactly when the
  request has a non-empty repository URL and some stored context of the same owner is
  linked to a repository with exactly that URL; otherwise it returns a context.
\<close>

lemma create_context_duplicate_nonempty:
  "if \<exists>url. ccr_github_repo_url request = Some url \<and> url \<noteq> [] \<and>
        (\<exists>c\<in>snd ` set (contexts w).
           ctx_owner_id c = user_id \<and>
           (\<exists>repo. ctx_github_repo c = Some repo \<and> repo_url repo = url))
   then create_context w user_id user_login request =
          Inl (ValueError (''Context already exists for repository: '' @ ccr_name request))
   else \<exists>ctx w'. create_context w user_id user_login request = Inr (ctx, w')"
proof (cases "ccr_github_repo_url request")
  case None
  then show ?thesis
    by (simp add: create_context_def truthy_def Let_def split_beta)
next
  case (Some url)
  have linked: "linked_to user_id url c \<longleftrightarrow>
      ctx_owner_id c = user_id \<and> (\<exists>repo. ctx_github_repo c = Some repo \<and> repo_url repo = url)"
    for c
    by (simp add: linked_to_def split: option.splits)
  show ?thesis
    using Some find_linked [of w user_id url]
    by (auto simp: create_context_def truthy_def py_or_def Let_def split_beta linked)
qed

lemma linked_urls_nonempty_iff:
  "linked_urls_nonempty w \<longleftrightarrow>
     (\<forall>c\<in>snd ` set (contexts w). \<forall>repo. ctx_github_repo c = Some repo \<longrightarrow> repo_url repo \<noteq> [])"
  by (fastforce simp: linked_urls_nonempty_def list_all_iff split: option.splits)

lemma fresh_world_linked_urls: "linked_urls_nonempty (fresh_world clk ids host)"
  by (simp add: linked_urls_nonempty_def fresh_world_def)

text \<open>
  Store operations keep this: each of them stores contexts with the descriptor they had,
  \<open>create_context\<close> stores one without a descriptor, and \<open>set_context_repo\<close> stores the
  descriptor it is given.
\<close>

lemma in_update: "c' \<in> snd ` set (AList.update k v al) \<Longrightarrow> c' = v \<or> c' \<in> snd ` set al"
  by (induction al) (auto split: if_splits)

lemma in_delete: "c' \<in> snd ` set (AList.delete k al) \<Longrightarrow> c' \<in> snd ` set al"
  by (induction al) (auto split: if_splits)


lemma same_repo:
  "c' = c1 \<or> c' \<in> S \<Longrightarrow> c \<in> S \<Longrightarrow> ctx_github_repo c1 = ctx_github_repo c \<Longrightarrow>
   \<exists>c\<in>S. ctx_github_repo c' = ctx_github_repo c"
  by blast

lemma add_file_repos:
  assumes "c' \<in> snd ` set (contexts (snd (add_file_to_context w k request)))"
  shows "\<exists>c\<in>snd ` set (contexts w). ctx_github_repo c' = ctx_github_repo c"
proof (cases "map_of (contexts w) k")
  case None
  with assms show ?thesis by (auto simp: add_file_to_context_def)
next
  case (Some c)
  then have stored: "c \<in> snd ` set (contexts w)" by (rule stored_value)
  define c1 where
    "c1 = c\<lparr>ctx_files := filter (\<lambda>f. cf_name f \<noteq> ccf_name request) (ctx_files c) @
                 [\<lparr>cf_name = ccf_name request, cf_file_type = ccf_file_type request,
                   cf_content = ccf_content request,
                   cf_created_at = clock w (clock_reads w),
                   cf_updated_at = clock w (Suc (clock_reads w))\<rparr>],
              ctx_updated_at := clock w (Suc (Suc (clock_reads w)))\<rparr>"
  have after: "contexts (snd (add_file_to_context w k request)) = AList.update k c1 (contexts w)"
    using Some by (simp add: add_file_to_context_def Let_def split_beta c1_def)
  from assms have "c' = c1 \<or> c' \<in> snd ` set (contexts w)"
    unfolding after by (rule in_update)
  from this stored show ?thesis by (rule same_repo) (simp add: c1_def)
qed

lemma update_context_repos:
  assumes "c' \<in> snd ` set (contexts (snd (update_context w k request)))"
  shows "\<exists>c\<in>snd ` set (contexts w). ctx_github_repo c' = ctx_github_repo c"
proof (cases "map_of (contexts w) k")
  case None
  with assms show ?thesis by (auto simp: update_context_def)
next
  case (Some c)
  then have stored: "c \<in> snd ` set (contexts w)" by (rule stored_value)
  obtain c1 w1 where run: "update_context w k request = (Some c1, w1)"
    using Some by (simp add: update_context_def Let_def split_beta)
  have after: "contexts (snd (update_context w k request)) = AList.update k c1 (contexts w)"
    and same: "ctx_github_repo c1 = ctx_github_repo c"
    using Some run
    by (cases "ucr_name request"; cases "ucr_description request"; cases "ucr_is_public request";
        clarsimp simp: update_context_def Let_def split_beta)+
  from assms have "c' = c1 \<or> c' \<in> snd ` set (contexts w)"
    unfolding after by (rule in_update)
  from this stored same show ?thesis by (rule same_repo)
qed

lemma update_context_file_repos:
  assumes "c' \<in> snd ` set (contexts (snd (update_context_file w k file_name request)))"
  shows "\<exists>c\<in>snd ` set (contexts w). ctx_github_repo c' = ctx_github_repo c"
proof (cases "map_of (contexts w) k")
  case None
  with assms show ?thesis by (auto simp: update_context_file_def)
next
  case (Some c)
  then have stored: "c \<in> snd ` set (contexts w)" by (rule stored_value)
  show ?thesis
  proof (cases "update_first file_name (ucf_content request) (clock w (clock_reads w)) (ctx_files c)")
    case None
    with Some assms show ?thesis
      by (auto simp: update_context_file_def Let_def split_beta now_def)
  next
    case found: (Some r)
    obtain f fs where r: "r = (f, fs)" by (cases r)
    have "contexts (snd (update_context_file w k file_name request))
            = AList.update k (c\<lparr>ctx_files := fs, ctx_updated_at := clock w (Suc (clock_reads w))\<rparr>)
                (contexts w)"
      using Some found r by (simp add: update_context_file_def Let_def split_beta now_def)
    then have "c' = c\<lparr>ctx_files := fs, ctx_updated_at := clock w (Suc (clock_reads w))\<rparr>
               \<or> c' \<in> snd ` set (contexts w)"
      using assms in_update by metis
    from this stored show ?thesis by (rule same_repo) simp
  qed
qed

lemma remove_file_repos:
  assumes "c' \<in> snd ` set (contexts (snd (remove_file_from_context w k file_name)))"
  shows "\<exists>c\<in>snd ` set (contexts w). ctx_github_repo c' = ctx_github_repo c"
proof (cases "map_of (contexts w) k")
  case None
  with assms show ?thesis by (auto simp: remove_file_from_context_def)
next
  case (Some c)
  then have stored: "c \<in> snd ` set (contexts w)" by (rule stored_value)
  show ?thesis
  proof (cases "file_name \<in> cf_name ` set (ctx_files c)")
    case False
    with Some assms show ?thesis
      by (auto simp: remove_file_from_context_def Let_def filter_names_id update_triv)
  next
    case True
    have "contexts (snd (remove_file_from_context w k file_name))
            = AList.update k (c\<lparr>ctx_files := filter (\<lambda>f. cf_name f \<noteq> file_name) (ctx_files c),
                                 ctx_updated_at := clock w (clock_reads w)\<rparr>) (contexts w)"
      using Some True
      by (simp add: remove_file_from_context_def Let_def split_beta now_def filter_names_shorter)
    then have "c' = c\<lparr>ctx_files := filter (\<lambda>f. cf_name f \<noteq> file_name) (ctx_files c),
                      ctx_updated_at := clock w (clock_reads w)\<rparr>
               \<or> c' \<in> snd ` set (contexts w)"
      using assms in_update by metis
    from this stored show ?thesis by (rule same_repo) simp
  qed
qed

lemma set_context_contributors_repos:
  assumes "c' \<in> snd ` set (contexts (snd (set_context_contributors w k contributors)))"
  shows "\<exists>c\<in>snd ` set (contexts w). ctx_github_repo c' = ctx_github_repo c"
proof (cases "map_of (contexts w) k")
  case None
  with assms show ?thesis by (auto simp: set_context_contributors_def)
next
  case (Some c)
  then have stored: "c \<in> snd ` set (contexts w)" by (rule stored_value)
  have "contexts (snd (set_context_contributors w k contributors))
          = AList.update k (c\<lparr>ctx_contributors := contributors,
                               ctx_updated_at := clock w (clock_reads w)\<rparr>) (contexts w)"
    using Some by (simp add: set_context_contributors_def Let_def split_beta now_def)
  then have "c' = c\<lparr>ctx_contributors := contributors,
                    ctx_updated_at := clock w (clock_reads w)\<rparr>
             \<or> c' \<in> snd ` set (contexts w)"
    using assms in_update by metis
  from this stored show ?thesis by (rule same_repo) simp
qed

lemma set_context_repo_repos:
  assumes "c' \<in> snd ` set (contexts (snd (set_context_repo w k github_repo)))"
  shows "ctx_github_repo c' = Some github_repo \<or>
         (\<exists>c\<in>snd ` set (contexts w). ctx_github_repo c' = ctx_github_repo c)"
proof (cases "map_of (contexts w) k")
  case None
  with assms show ?thesis by (auto simp: set_context_repo_def)
next
  case (Some c)
  have "contexts (snd (set_context_repo w k github_repo))
          = AList.update k (c\<lparr>ctx_github_repo := Some github_repo,
                               ctx_updated_at := clock w (clock_reads w)\<rparr>) (contexts w)"
    using Some by (simp add: set_context_repo_def Let_def split_beta now_def)
  then have "c' = c\<lparr>ctx_github_repo := Some github_repo,
                    ctx_updated_at := clock w (clock_reads w)\<rparr>
             \<or> c' \<in> snd ` set (contexts w)"
    using assms in_update by metis
  then show ?thesis by auto
qed

lemma delete_context_repos:
  assumes "c' \<in> snd ` set (contexts (snd (delete_context w k)))"
  shows "\<exists>c\<in>snd ` set (contexts w). ctx_github_repo c' = ctx_github_repo c"
  using assms in_delete [of c' k "contexts w"]
  by (auto simp: delete_context_def delete_context_files_def split: if_splits)

lemma create_context_repos:
  assumes "c' \<in> snd ` set (contexts w')"
      and "create_context w user_id user_login request = Inr (c, w')"
  shows "ctx_github_repo c' = None \<or>
         (\<exists>c\<in>snd ` set (contexts w). ctx_github_repo c' = ctx_github_repo c)"
proof -
  have after: "contexts w' = AList.update (ctx_id c) c (contexts w)"
    and none: "ctx_github_repo c = None"
    using assms(2)
    by (auto simp: create_context_def Let_def split_beta uuid4_def now_def split: if_splits)
  from assms(1) have "c' = c \<or> c' \<in> snd ` set (contexts w)"
    unfolding after by (rule in_update)
  then show ?thesis using none by auto
qed

lemma generate_default_files_repos:
  assumes "c' \<in> snd ` set (contexts (snd (generate_default_files w k github_service)))"
  shows "\<exists>c\<in>snd ` set (contexts w). ctx_github_repo c' = ctx_github_repo c"
proof (cases "map_of (contexts w) k")
  case None
  with assms show ?thesis by (auto simp: generate_default_files_def)
next
  case (Some c)
  have "\<exists>r1 r2 r3 r4. snd (generate_default_files w k github_service) =
          snd (add_file_to_context (snd (add_file_to_context (snd (add_file_to_context
            (snd (add_file_to_context w k r1)) k r2)) k r3)) k r4)"
    using Some by (simp add: generate_default_files_def Let_def split_beta) blast
  then obtain r1 r2 r3 r4 where after: "snd (generate_default_files w k github_service) =
          snd (add_file_to_context (snd (add_file_to_context (snd (add_file_to_context
            (snd (add_file_to_context w k r1)) k r2)) k r3)) k r4)"
    by blast
  from assms [unfolded after] obtain c3 where
    "c3 \<in> snd ` set (contexts (snd (add_file_to_context (snd (add_file_to_context
        (snd (add_file_to_context w k r1)) k r2)) k r3)))"
    "ctx_github_repo c' = ctx_github_repo c3"
    using add_file_repos by blast
  moreover from this(1) obtain c2 where
    "c2 \<in> snd ` set (contexts (snd (add_file_to_context (snd (add_file_to_context w k r1)) k r2)))"
    "ctx_github_repo c3 = ctx_github_repo c2"
    using add_file_repos by blast
  moreover from this(1) obtain c1 where
    "c1 \<in> snd ` set (contexts (snd (add_file_to_context w k r1)))"
    "ctx_github_repo c2 = ctx_github_repo c1"
    using add_file_repos by blast
  moreover from this(1) obtain c0 where
    "c0 \<in> snd ` set (contexts w)" "ctx_github_repo c1 = ctx_github_repo c0"
    using add_file_repos by blast
  ultimately show ?thesis by auto
qed

lemma apply_op_linked_urls:
  assumes "linked_urls_nonempty w" "links_nonempty op"
  shows "linked_urls_nonempty (apply_op w op)"
  unfolding linked_urls_nonempty_iff
proof (intro ballI allI impI)
  fix c' repo
  assume stored: "c' \<in> snd ` set (contexts (apply_op w op))"
     and repo: "ctx_github_repo c' = Some repo"
  have kept: "repo_url repo \<noteq> []"
    if "\<exists>c\<in>snd ` set (contexts w). ctx_github_repo c' = ctx_github_repo c"
  proof -
    from that obtain c where c: "c \<in> snd ` set (contexts w)"
      and same: "ctx_github_repo c' = ctx_github_repo c"
      by blast
    from same repo have "ctx_github_repo c = Some repo" by simp
    with c assms(1) show ?thesis
      unfolding linked_urls_nonempty_iff by blast
  qed
  show "repo_url repo \<noteq> []"
  proof (cases op)
    case (CreateContext user_id user_login request)
    show ?thesis
    proof (cases "create_context w user_id user_login request")
      case (Inl e)
      with CreateContext stored have "c' \<in> snd ` set (contexts w)" by simp
      then show ?thesis by (intro kept bexI [of _ c']) simp_all
    next
      case (Inr r)
      obtain c w' where r: "r = (c, w')" by (cases r)
      from stored CreateContext Inr r have "c' \<in> snd ` set (contexts w')" by simp
      from create_context_repos [OF this Inr [unfolded r]] repo
      show ?thesis by (intro kept) simp
    qed
  next
    case (UpdateContext k request)
    with stored have "c' \<in> snd ` set (contexts (snd (update_context w k request)))" by simp
    then show ?thesis by (intro kept update_context_repos)
  next
    case (DeleteContext k)
    with stored have "c' \<in> snd ` set (contexts (snd (delete_context w k)))" by simp
    then show ?thesis by (intro kept delete_context_repos)
  next
    case (AddFile k request)
    with stored have "c' \<in> snd ` set (contexts (snd (add_file_to_context w k request)))" by simp
    then show ?thesis by (intro kept add_file_repos)
  next
    case (UpdateFile k file_name request)
    with stored
    have "c' \<in> snd ` set (contexts (snd (update_context_file w k file_name request)))" by simp
    then show ?thesis by (intro kept update_context_file_repos)
  next
    case (RemoveFile k file_name)
    with stored
    have "c' \<in> snd ` set (contexts (snd (remove_file_from_context w k file_name)))" by simp
    then show ?thesis by (intro kept remove_file_repos)
  next
    case (SetRepoLink k github_repo)
    with stored have "c' \<in> snd ` set (contexts (snd (set_context_repo w k github_repo)))" by simp
    from set_context_repo_repos [OF this] show ?thesis
    proof
      assume "ctx_github_repo c' = Some github_repo"
      with repo have "repo = github_repo" by simp
      with assms(2) SetRepoLink show ?thesis by (simp add: links_nonempty_def)
    next
      assume "\<exists>c\<in>snd ` set (contexts w). ctx_github_repo c' = ctx_github_repo c"
      then show ?thesis by (rule kept)
    qed
  next
    case (SetContributors k contributors)
    with stored
    have "c' \<in> snd ` set (contexts (snd (set_context_contributors w k contributors)))" by simp
    then show ?thesis by (intro kept set_context_contributors_repos)
  next
    case (GenerateDefaultFiles k github_service)
    with stored
    have "c' \<in> snd ` set (contexts (snd (generate_default_files w k github_service)))" by simp
    then show ?thesis by (intro kept generate_default_files_repos)
  qed
qed

lemma run_ops_linked_urls:
  "linked_urls_nonempty w \<Longrightarrow> list_all links_nonempty ops \<Longrightarrow>
   linked_urls_nonempty (run_ops w ops)"
  unfolding run_ops_def
  by (induction ops arbitrary: w) (simp_all add: apply_op_linked_urls)

lemma reached_linked_urls:
  "list_all links_nonempty ops \<Longrightarrow> linked_urls_nonempty (run_ops (fresh_world clk ids host) ops)"
  by (rule run_ops_linked_urls [OF fresh_world_linked_urls])

text \<open>
  Claim C2.  In a world where no stored context is linked to a descriptor with an empty
  URL (the worlds the application reaches, see \<open>linked_urls_nonempty\<close> and
  \<open>reached_linked_urls\<close>),
  \<open>create_context\<close> raises the duplicate error exactly when the request supplies a
  repository URL and some stored context of the same owner is linked to a repository with
  exactly that URL; otherwise it returns a context.  So the same URL under another owner,
  or another URL under the same owner, goes through.
\<close>

theorem create_context_duplicate:
  assumes "linked_urls_nonempty w"
  shows "if \<exists>url. ccr_github_repo_url request = Some url \<and>
        (\<exists>c\<in>snd ` set (contexts w).
           ctx_owner_id c = user_id \<and>
           (\<exists>repo. ctx_github_repo c = Some repo \<and> repo_url repo = url))
   then create_context w user_id user_login request =
          Inl (ValueError (''Context already exists for repository: '' @ ccr_name request))
   else \<exists>ctx w'. create_context w user_id user_login request = Inr (ctx, w')"
proof -
  have "(\<exists>url. ccr_github_repo_url request = Some url \<and>
        (\<exists>c\<in>snd ` set (contexts w).
           ctx_owner_id c = user_id \<and>
           (\<exists>repo. ctx_github_repo c = Some repo \<and> repo_url repo = url))) \<longleftrightarrow>
      (\<exists>url. ccr_github_repo_url request = Some url \<and> url \<noteq> [] \<and>
        (\<exists>c\<in>snd ` set (contexts w).
           ctx_owner_id c = user_id \<and>
           (\<exists>repo. ctx_github_repo c = Some repo \<and> repo_url repo = url)))"
    using assms unfolding linked_urls_nonempty_iff by blast
  then show ?thesis
    using create_context_duplicate_nonempty [of request w user_id user_login] by simp
qed

lemma linked_world_urls: "linked_urls_nonempty (linked ''https://github.com/octo/demo'')"
  by (simp add: linked_urls_nonempty_def linked_context demo_repo_def)

theorem create_context_duplicate_witness:
  "linked_urls_nonempty (linked ''https://github.com/octo/demo'') \<and>
   isl (create_context (linked ''https://github.com/octo/demo'') 1 ''alice''
          (new_CreateContextRequest ''Bar'' None (Some ''https://github.com/octo/demo'') None)) \<and>
   \<not> isl (create_context (linked ''https://github.com/octo/demo'') 2 ''bob''
          (new_CreateContextRequest ''Bar'' None (Some ''https://github.com/octo/demo'') None)) \<and>
   \<not> isl (create_context (linked ''https://github.com/octo/demo'') 1 ''alice''
          (new_CreateContextRequest ''Bar'' None (Some ''https://github.com/octo/other'') None)) \<and>
   \<not> isl (create_context (linked ''https://github.com/octo/demo'') 1 ''alice''
          (new_CreateContextRequest ''Bar'' None None None))"
  using
    create_context_duplicate [OF linked_world_urls, of
      "new_CreateContextRequest ''Bar'' None (Some ''https://github.com/octo/demo'') None"
      1 "''alice''"]
    create_context_duplicate [OF linked_world_urls, of
      "new_CreateContextRequest ''Bar'' None (Some ''https://github.com/octo/demo'') None"
      2 "''bob''"]
    create_context_duplicate [OF linked_world_urls, of
      "new_CreateContextRequest ''Bar'' None (Some ''https://github.com/octo/other'') None"
      1 "''alice''"]
    create_context_duplicate [OF linked_world_urls, of
      "new_CreateContextRequest ''Bar'' None None None" 1 "''alice''"]
    linked_world_urls
  by (auto simp: linked_context new_CreateContextRequest_def demo_repo_def)


section \<open>The stack document\<close>

lemma foldl_bullets:
  "foldl (\<lambda>content lang. content @ ''- **'' @ lang @ ''**'' @ nl) content langs
     = content @ concat (map bullet langs)"
  by (induction langs arbitrary: content) (simp_all add: bullet_def)

text \<open>
  Claim C7, as the code has it.  The stack document is its title, then, when any language is listed, the
  heading \<open>## Languages\<close> with one bullet per listed language and an empty line, then the
  fixed sections on frameworks and libraries, tools and services, and architecture.  The
  listed languages are exactly the keys of the linked repository's language map, each
  once, in ascending order of \<open>sorted\<close> on strings: lexicographic by character code, in
  which every upper-case letter comes before every lower-case letter.  Without a
  repository, without a language map or with an empty one nothing is listed, so the
  language section is left out and the fixed sections remain.
\<close>

theorem generate_stack_content_languages:
  "\<exists>listed.
     generate_stack_content context =
       ''# Technology Stack'' @ nl @ nl
       @ (if listed = [] then []
          else ''## Languages'' @ nl @ concat (map bullet listed) @ nl)
       @ stack_placeholders \<and>
     set listed = linked_languages context \<and> sorted listed \<and> distinct listed"
proof (cases "ctx_github_repo context")
  case None
  then show ?thesis
    by (intro exI [of _ "[]"])
       (simp add: generate_stack_content_def linked_languages_def stack_placeholders_def)
next
  case repo: (Some repo)
  show ?thesis
  proof (cases "repo_languages repo")
    case None
    with repo show ?thesis
      by (intro exI [of _ "[]"])
         (simp add: generate_stack_content_def linked_languages_def stack_placeholders_def)
  next
    case (Some languages)
    let ?listed = "sort (dict_keys languages)"
    have empty: "?listed = [] \<longleftrightarrow> languages = []"
      by (cases languages) (auto simp: dict_keys_def dest: arg_cong [where f = set])
    have keys: "set ?listed = fst ` set languages" "sorted ?listed" "distinct ?listed"
      by (simp_all add: dict_keys_def)
    have doc: "generate_stack_content context =
       ''# Technology Stack'' @ nl @ nl
       @ (if ?listed = [] then []
          else ''## Languages'' @ nl @ concat (map bullet ?listed) @ nl)
       @ stack_placeholders"
      unfolding generate_stack_content_def Let_def foldl_bullets
      using repo Some by (simp add: stack_placeholders_def empty)
    from doc keys repo Some show ?thesis
      by (intro exI [of _ ?listed]) (simp add: linked_languages_def)
  qed
qed

text \<open>
  Claim C7 as stated asks for alphabetical order.  For a repository in \<open>CoffeeScript\<close> and
  \<open>CSS\<close> the document lists \<open>CSS\<close> first, because \<open>S\<close> is an upper-case letter and \<open>o\<close>
  is not; in the alphabet \<open>CoffeeScript\<close> comes first.
\<close>

theorem generate_stack_content_order_counterexample:
  "generate_stack_content styled_context =
     ''# Technology Stack'' @ nl @ nl
     @ ''## Languages'' @ nl
     @ ''- **CSS**'' @ nl
     @ ''- **CoffeeScript**'' @ nl @ nl
     @ stack_placeholders \<and>
   \<not> alphabetical [''CSS'', ''CoffeeScript''] \<and>
   alphabetical [''CoffeeScript'', ''CSS'']"
proof (intro conjI)
  show "generate_stack_content styled_context =
     ''# Technology Stack'' @ nl @ nl
     @ ''## Languages'' @ nl
     @ ''- **CSS**'' @ nl
     @ ''- **CoffeeScript**'' @ nl @ nl
     @ stack_placeholders"
    by (simp add: generate_stack_content_def styled_context_def plain_context_def
          demo_repo_def dict_keys_def stack_placeholders_def)
  show "\<not> alphabetical [''CSS'', ''CoffeeScript'']"
    by code_simp
  show "alphabetical [''CoffeeScript'', ''CSS'']"
    by code_simp
qed

text \<open>The scenario of the specification: \<open>Python\<close> and \<open>Go\<close> are listed as \<open>Go\<close>, \<open>Python\<close>.\<close>

lemma generate_stack_content_example:
  "generate_stack_content (plain_context\<lparr>ctx_github_repo := Some (demo_repo ''u'')\<rparr>) =
     ''# Technology Stack'' @ nl @ nl
     @ ''## Languages'' @ nl
     @ ''- **Go**'' @ nl
     @ ''- **Python**'' @ nl @ nl
     @ stack_placeholders"
  by (simp add: generate_stack_content_def plain_context_def demo_repo_def dict_keys_def
        stack_placeholders_def)

section \<open>The people document\<close>

lemma when_set_line: "when_set field line content = content @ optional_line field line"
  by (simp add: when_set_def optional_line_def split: option.splits)

lemma display_name:
  "py_or (gc_name c) (gc_login c) = (if truthy (gc_name c) then py_or (gc_name c) [] else gc_login c)"
  by (simp add: py_or_def truthy_def split: option.splits)

lemma website_target_scheme:
  "website_target v = (if has_scheme v then v else ''https://'' @ v)"
  by (simp add: website_target_def has_scheme_def)

lemma people_step_lines:
  "people_step content c = (if gc_selected c then content @ concat (contributor_lines c) else content)"
  unfolding people_step_def Let_def when_set_line display_name website_target_scheme
    contributor_lines_def
  by simp

lemma foldl_people_step:
  "foldl people_step content cs
     = content @ concat (map (\<lambda>c. concat (contributor_lines c)) (filter gc_selected cs))"
  by (induction cs arbitrary: content) (simp_all add: people_step_lines)

text \<open>
  Claim C8.  The people document is its title, then, when the context has contributors,
  the heading \<open>## Contributors\<close> with the subsections of the selected contributors in the
  order of the collection, then the fixed sections.  A subsection is \<open>contributor_lines\<close>:
  each of pronouns, bio, company, location, website, email and Twitter handle gives its
  line exactly when the field is non-empty and gives no text otherwise, and the hireable
  line is there exactly when the flag is true.  The link target \<open>website_target\<close> of the
  generator is the raw value when it starts with \<open>http://\<close> or \<open>https://\<close> and the raw
  value after \<open>https://\<close> otherwise; the label is the raw value.
\<close>

theorem people_document_lines:
  "generate_people_content context =
     ''# People'' @ nl @ nl
     @ (if ctx_contributors context = [] then []
        else ''## Contributors'' @ nl
             @ concat (map (\<lambda>c. concat (contributor_lines c))
                         (filter gc_selected (ctx_contributors context))))
     @ people_placeholders \<and>
   (\<not> truthy field \<longrightarrow> optional_line field line = []) \<and>
   (truthy field \<longrightarrow> (\<exists>v. field = Some v \<and> v \<noteq> [] \<and> optional_line field line = line v)) \<and>
   (has_scheme website \<longrightarrow> website_target website = website) \<and>
   (\<not> has_scheme website \<longrightarrow> website_target website = ''https://'' @ website)"
proof -
  have doc: "generate_people_content context =
     ''# People'' @ nl @ nl
     @ (if ctx_contributors context = [] then []
        else ''## Contributors'' @ nl
             @ concat (map (\<lambda>c. concat (contributor_lines c))
                         (filter gc_selected (ctx_contributors context))))
     @ people_placeholders"
    unfolding generate_people_content_def Let_def foldl_people_step
    by (simp add: people_placeholders_def)
  have lines: "\<not> truthy field \<longrightarrow> optional_line field line = []"
    "truthy field \<longrightarrow> (\<exists>v. field = Some v \<and> v \<noteq> [] \<and> optional_line field line = line v)"
    by (simp_all add: truthy_def optional_line_def split: option.splits)
  from doc lines show ?thesis
    by (simp add: website_target_scheme)
qed

theorem people_document_lines_witness:
  "\<not> truthy (gc_bio mona) \<and> truthy (gc_website mona) \<and>
   \<not> has_scheme ''mona.example'' \<and> has_scheme ''https://mona.example'' \<and>
   website_target ''https://mona.example'' = ''https://mona.example'' \<and>
   generate_people_content (plain_context\<lparr>ctx_contributors := [contributor ''octo'', mona]\<rparr>) =
     ''# People'' @ nl @ nl
     @ ''## Contributors'' @ nl
     @ ''### Mona'' @ nl
     @ ''- **GitHub**: [@mona](https://github.com/mona)'' @ nl
     @ ''- **Website**: [mona.example](https://mona.example)'' @ nl
     @ nl
     @ people_placeholders"
  using
    people_document_lines [of "plain_context\<lparr>ctx_contributors := [contributor ''octo'', mona]\<rparr>"
      "gc_bio mona" "\<lambda>v. ''- **Bio**: '' @ v @ nl" "''mona.example''"]
    people_document_lines [of plain_context
      "gc_website mona" "\<lambda>v. v" "''https://mona.example''"]
  by (simp add: mona_def contributor_def plain_context_def truthy_def has_scheme_def
        contributor_lines_def optional_line_def py_or_def)

section \<open>Toggling a contributor\<close>














section \<open>Publishing\<close>

lemma http_fields [simp]:
  "sent (snd (http w request)) = sent w @ [request]"
  "contexts (snd (http w request)) = contexts w" "disk (snd (http w request)) = disk w"
  "clock (snd (http w request)) = clock w" "clock_reads (snd (http w request)) = clock_reads w"
  "github (snd (http w request)) = github w"
  by (simp_all add: http_def)

lemma get_repo_info_reads:
  "\<exists>requests. sent (snd (get_repo_info lib w token url)) = sent w @ requests \<and>
      list_all is_read requests \<and>
      contexts (snd (get_repo_info lib w token url)) = contexts w \<and>
      disk (snd (get_repo_info lib w token url)) = disk w"
proof (cases "parse_repo_url lib url")
  case None
  then show ?thesis by (simp add: get_repo_info_def)
next
  case (Some names)
  obtain owner repo where names: "names = (owner, repo)" by (cases names)
  let ?first = "HttpGet token (repos_url owner repo)"
  let ?second = "HttpGet token (repos_url owner repo @ ''/languages'')"
  have "snd (get_repo_info lib w token url) = snd (http w ?first) \<or>
        snd (get_repo_info lib w token url) = snd (http (snd (http w ?first)) ?second)"
    using Some names
    by (auto simp: get_repo_info_def split_beta split: sum.splits option.splits prod.splits)
  then show ?thesis
  proof
    assume "snd (get_repo_info lib w token url) = snd (http w ?first)"
    then show ?thesis
      by (intro exI [of _ "[?first]"]) (simp add: is_read_def)
  next
    assume "snd (get_repo_info lib w token url) = snd (http (snd (http w ?first)) ?second)"
    then show ?thesis
      by (intro exI [of _ "[?first, ?second]"]) (simp add: is_read_def)
  qed
qed

lemma get_repo_info_failed_read:
  assumes "parse_repo_url lib url = Some (owner, repo)"
      and "read_failed (github w (sent w) (HttpGet token (repos_url owner repo)))"
  shows "fst (get_repo_info lib w token url) = None"
  using assms
  by (auto simp: get_repo_info_def http_def read_failed_def split: http_reply.splits)

lemma create_context_pr_failed_read:
  assumes "read_failed (github w (sent w) (HttpGet token (repos_url owner repo)))"
  shows "\<exists>e. create_context_pr lib w token owner repo ctx login =
           (Inl (Exception (''Failed to create pull request: '' @ str_exn lib e)),
            w\<lparr>sent := sent w @ [HttpGet token (repos_url owner repo)]\<rparr>)"
proof -
  have "\<exists>e. read_default_branch w token owner repo lib =
          (Inl e, w\<lparr>sent := sent w @ [HttpGet token (repos_url owner repo)]\<rparr>)"
    using assms
    by (auto simp: read_default_branch_def and_then_def http_def read_failed_def
          split: http_reply.splits)
  then show ?thesis
    by (auto simp: create_context_pr_def and_then_def)
qed

lemma is_read_no_branch: "list_all is_read requests \<Longrightarrow> \<not> list_ex creates_branch requests"
  by (induction requests)
     (auto simp: is_read_def creates_branch_def split: http_request.splits)

text \<open>
  Claim C6.  The context exists and is linked, and the prerequisite read of the
  repository's metadata fails: \<open>get_repo_info\<close> gives no descriptor (the URL does not
  parse, the call raises, the status is not 200, or the answer cannot be used), or it
  gives one and the read at the start of \<open>create_context_pr\<close> raises or is not answered
  with 200.  Then \<open>create_pull_request\<close> ends in an HTTP 500 error, every request made on
  the way is a \<open>get\<close>, so none of them creates a branch, and the store and the disk are
  as before.
\<close>

theorem publish_stops_at_failed_read:
  assumes found: "get_context w context_id = Some ctx"
      and link: "ctx_github_repo ctx = Some github_repo"
      and failed: "prerequisite_read_fails lib w (su_access_token user) (repo_url github_repo)"
  shows "\<exists>detail w' requests.
     create_pull_request lib w context_id (Some user) = (Inl (HTTPException 500 detail), w') \<and>
     sent w' = sent w @ requests \<and> list_all is_read requests \<and>
     \<not> list_ex creates_branch requests \<and>
     contexts w' = contexts w \<and> disk w' = disk w"
proof -
  let ?token = "su_access_token user"
  obtain info w1 where info: "get_repo_info lib w ?token (repo_url github_repo) = (info, w1)"
    by (cases "get_repo_info lib w ?token (repo_url github_repo)")
  from get_repo_info_reads [of lib w ?token "repo_url github_repo"] info
  obtain requests where
    reads: "sent w1 = sent w @ requests" "list_all is_read requests"
           "contexts w1 = contexts w" "disk w1 = disk w"
    by auto
  show ?thesis
  proof (cases info)
    case None
    have "create_pull_request lib w context_id (Some user) =
            (Inl (HTTPException 500 (''Error creating pull request: '' @ str_exn lib
                    (HTTPException 404 ''Repository not found or not accessible''))), w1)"
      using found link info None by (simp add: create_pull_request_def)
    with reads show ?thesis
      by (auto simp: is_read_no_branch)
  next
    case (Some repo_info)
    let ?get = "HttpGet ?token (repos_url (repo_owner repo_info) (repo_name repo_info))"
    from failed info Some have "read_failed (github w1 (sent w1) ?get)"
      by (simp add: prerequisite_read_fails_def)
    from create_context_pr_failed_read [OF this, of lib ctx "su_login user"]
    obtain e where
      pr: "create_context_pr lib w1 ?token (repo_owner repo_info) (repo_name repo_info) ctx
             (su_login user) =
           (Inl (Exception (''Failed to create pull request: '' @ str_exn lib e)),
            w1\<lparr>sent := sent w1 @ [?get]\<rparr>)"
      by blast
    have "create_pull_request lib w context_id (Some user) =
            (Inl (HTTPException 500 (''Error creating pull request: '' @ str_exn lib
                    (Exception (''Failed to create pull request: '' @ str_exn lib e)))),
             w1\<lparr>sent := sent w1 @ [?get]\<rparr>)"
      using found link info Some pr by (simp add: create_pull_request_def)
    moreover have "list_all is_read (requests @ [?get])"
      using reads(2) by (simp add: is_read_def)
    ultimately show ?thesis
      using reads is_read_no_branch [of "requests @ [?get]"]
      by (intro exI [of _ "requests @ [?get]"] exI) auto
  qed
qed

lemma lost_repo_context:
  "get_context lost_repo ''ctx'' = Some
     \<lparr>ctx_id = ''ctx'', ctx_name = ''Foo'', ctx_description = None,
      ctx_owner_id = 1, ctx_owner_login = ''alice'',
      ctx_github_repo = Some (demo_repo ''https://github.com/octo/demo''),
      ctx_files = [], ctx_contributors = [], ctx_is_public = True, ctx_created_at = 0,
      ctx_updated_at = 2\<rparr>"
  "sent lost_repo = []" "github lost_repo = not_found"
  by (simp_all add: lost_repo_def eval_defs)

theorem publish_stops_at_failed_read_witness:
  "get_context lost_repo ''ctx'' \<noteq> None \<and>
   prerequisite_read_fails demo_library lost_repo ''token'' ''https://github.com/octo/demo'' \<and>
   isl (fst (create_pull_request demo_library lost_repo ''ctx'' (Some alice))) \<and>
   \<not> list_ex creates_branch (sent (snd (create_pull_request demo_library lost_repo ''ctx'' (Some alice))))"
proof -
  have failed: "prerequisite_read_fails demo_library lost_repo (su_access_token alice)
                  (repo_url (demo_repo ''https://github.com/octo/demo''))"
    by (simp add: prerequisite_read_fails_def get_repo_info_def demo_library_def demo_repo_def
          http_def lost_repo_context not_found_def)
  from publish_stops_at_failed_read [OF lost_repo_context(1) _ failed] failed
  show ?thesis
    by (auto simp: lost_repo_context alice_def demo_repo_def)
qed

end
